theory Spec2Isabelle
  imports Complex_Main
begin

section \<open>Host data: primitive values, property values, the data view\<close>

text \<open>
  A \<open>PrimitiveValue\<close> of the host (string, number, boolean, Date), together with the two
  JavaScript values \<open>undefined\<close> and \<open>null\<close> that the code tests for and produces.
  A number is carried as a real: the transform never computes with one, it only passes
  numbers on. A Date is carried as its epoch milliseconds.
\<close>

datatype primitive =
    PUndefined
  | PNull
  | PBool bool
  | PNumber real
  | PString string
  | PDate int

text \<open>
  The conversions of a number and of a Date to a string are the language's own; the
  transform only calls them through a template literal. They are parameters here.
\<close>

record js_format =
  numberToString :: "real \<Rightarrow> string"
  dateToString :: "int \<Rightarrow> string"

text \<open>The template literal \<^verbatim>\<open>`${v}`\<close>.\<close>

fun templateString :: "js_format \<Rightarrow> primitive \<Rightarrow> string" where
  "templateString fmt PUndefined = ''undefined''"
| "templateString fmt PNull = ''null''"
| "templateString fmt (PBool b) = (if b then ''true'' else ''false'')"
| "templateString fmt (PNumber r) = numberToString fmt r"
| "templateString fmt (PString s) = s"
| "templateString fmt (PDate d) = dateToString fmt d"

text \<open>An array read \<open>xs[i]\<close>: out of range it gives \<open>undefined\<close>, here \<open>None\<close>.\<close>

definition js_index :: "'a list \<Rightarrow> nat \<Rightarrow> 'a option" where
  "js_index xs i = (if i < length xs then Some (xs ! i) else None)"

text \<open>The same read on an array of primitives, where \<open>undefined\<close> is a value.\<close>

definition prim_index :: "primitive list \<Rightarrow> nat \<Rightarrow> primitive" where
  "prim_index xs i = (case js_index xs i of None \<Rightarrow> PUndefined | Some v \<Rightarrow> v)"

text \<open>A \<open>Fill\<close> is \<^verbatim>\<open>{ solid?: { color?: string } }\<close>.\<close>

record fill_solid =
  color :: primitive

record Fill =
  solid :: "fill_solid option"

text \<open>A \<open>DataViewPropertyValue\<close>: a primitive or a structural value (a fill).\<close>

datatype property_value =
    Prim primitive
  | FillValue Fill

type_synonym DataViewObject = "string \<rightharpoonup> property_value"
type_synonym DataViewObjects = "string \<rightharpoonup> DataViewObject"

record DataViewMetadataColumn =
  col_displayName :: string

record DataViewCategoryColumn =
  source :: "DataViewMetadataColumn option"
  cat_values :: "primitive list"
  cat_objects :: "DataViewObjects option list option"

record DataViewValueColumn =
  val_values :: "primitive list"
  maxLocal :: primitive

record DataViewCategorical =
  categories :: "DataViewCategoryColumn list option"
  categorical_values :: "DataViewValueColumn list option"

record DataViewMetadata =
  objects :: "DataViewObjects option"

record DataView =
  categorical :: "DataViewCategorical option"
  metadata :: DataViewMetadata

record VisualUpdateOptions =
  dataViews :: "DataView list option"

record IColorInfo =
  info_value :: string

record ISandboxExtendedColorPalette =
  isHighContrast :: bool
  foreground :: IColorInfo
  background :: IColorInfo
  getColor :: "string \<Rightarrow> IColorInfo"

text \<open>
  The host: its palette, and the selection id it builds for a row of a category column
  (\<^verbatim>\<open>createSelectionIdBuilder().withCategory(category, i).createSelectionId()\<close>).
  The type of selection ids is the host's own.
\<close>

record 'sid IVisualHost =
  colorPalette :: ISandboxExtendedColorPalette
  createSelectionId :: "DataViewCategoryColumn \<Rightarrow> nat \<Rightarrow> 'sid"

section \<open>The view model\<close>

record 'sid BarChartDataPoint =
  dp_value :: primitive
  category :: string
  dp_color :: primitive
  strokeColor :: primitive
  strokeWidth :: real
  selectionId :: "'sid option"

text \<open>The numeric enum \<open>specialValsEnum\<close> and the number each member is at run time.\<close>

datatype specialValsEnum = coffee | warning | musicalNote

fun specialValsEnum_number :: "specialValsEnum \<Rightarrow> real" where
  "specialValsEnum_number coffee = 0"
| "specialValsEnum_number warning = 1"
| "specialValsEnum_number musicalNote = 2"

text \<open>
  The resolved settings. A generic \<open>getValue<T>\<close> is a cast at run time, so a field it
  fills holds a property value; the two colours the transform computes itself
  (\<open>enableAxis.fill\<close> and \<open>helpLinkColor\<close>) hold what it computes, a string or
  \<open>null\<close>/\<open>undefined\<close>.
\<close>

record enableAxis_settings =
  ea_show :: property_value
  ea_fill :: primitive

record generalView_settings =
  gv_opacity :: property_value
  gv_showBugBashData :: property_value
  gv_showHelpLink :: property_value
  gv_helpLinkColor :: primitive
  gv_specialEnumeration :: property_value

record testAnalyticsProperty_settings =
  ta_show :: property_value
  ta_displayName :: property_value
  ta_opacity :: property_value
  ta_showHelpLink :: property_value
  ta_helpLinkColor :: primitive
  ta_specialEnumeration :: property_value

record CardWithManyProperties_settings =
  card_show :: property_value
  card_displayName :: property_value
  card_unboundIntegerProperty :: property_value
  card_boundIntegerProperty :: property_value
  card_unboundNumericProperty :: property_value
  card_boundNumericProperty :: property_value
  card_booleanProperty :: property_value
  card_textProperty :: property_value
  card_specialEnumeration :: property_value
  card_colorProperty :: property_value
  card_nullableColorProperty :: property_value
  card_formattingLableDisplayUnitsProperty :: property_value
  card_formattingAlignmentProperty :: property_value
  card_formattingFontSizeProperty :: property_value

record BarChartSettings =
  enableAxis :: enableAxis_settings
  generalView :: generalView_settings
  testAnalyticsProperty :: testAnalyticsProperty_settings
  CardWithManyPropertiesAnalytics :: CardWithManyProperties_settings
  CardWithManyPropertiesFormatting :: CardWithManyProperties_settings

text \<open>
  The view model. \<open>settings = None\<close> is the empty object \<^verbatim>\<open><BarChartSettings>{}\<close> of
  the early return; \<open>dataMax\<close> holds whatever the cast \<^verbatim>\<open><number>dataValue.maxLocal\<close>
  lets through.
\<close>

record 'sid BarChartViewModel =
  dataPoints :: "'sid BarChartDataPoint list"
  dataMax :: primitive
  settings :: "BarChartSettings option"

datatype error = TypeError

section \<open>Settings resolution\<close>

definition defaultSettings :: BarChartSettings where
  "defaultSettings = \<lparr>
     enableAxis = \<lparr>ea_show = Prim (PBool False), ea_fill = PString ''#000000''\<rparr>,
     generalView = \<lparr>
       gv_opacity = Prim (PNumber 100),
       gv_showBugBashData = Prim (PBool False),
       gv_showHelpLink = Prim (PBool False),
       gv_helpLinkColor = PString ''#80B0E0'',
       gv_specialEnumeration = Prim (PNumber (specialValsEnum_number coffee))\<rparr>,
     testAnalyticsProperty = \<lparr>
       ta_show = Prim (PBool False),
       ta_displayName = Prim (PString ''Analytics Instance''),
       ta_opacity = Prim (PNumber 100),
       ta_showHelpLink = Prim (PBool False),
       ta_helpLinkColor = PString ''#80B0E0'',
       ta_specialEnumeration = Prim (PNumber (specialValsEnum_number coffee))\<rparr>,
     CardWithManyPropertiesAnalytics = \<lparr>
       card_show = Prim (PBool False),
       card_displayName = Prim (PString ''Analytics Instance''),
       card_unboundIntegerProperty = Prim (PNumber 10),
       card_boundIntegerProperty = Prim (PNumber 20),
       card_unboundNumericProperty = Prim (PNumber 10.5),
       card_boundNumericProperty = Prim (PNumber 20.5),
       card_booleanProperty = Prim (PBool False),
       card_textProperty = Prim (PString ''What is your name?''),
       card_specialEnumeration = Prim (PNumber (specialValsEnum_number coffee)),
       card_colorProperty = Prim (PString ''#8800FF''),
       card_nullableColorProperty = Prim (PString ''#00FF88''),
       card_formattingLableDisplayUnitsProperty = Prim (PNumber 0),
       card_formattingAlignmentProperty = Prim (PString ''right''),
       card_formattingFontSizeProperty = Prim (PNumber 10)\<rparr>,
     CardWithManyPropertiesFormatting = \<lparr>
       card_show = Prim (PBool False),
       card_displayName = Prim (PString ''Formatting Instance''),
       card_unboundIntegerProperty = Prim (PNumber 10),
       card_boundIntegerProperty = Prim (PNumber 20),
       card_unboundNumericProperty = Prim (PNumber 10.5),
       card_boundNumericProperty = Prim (PNumber 20.5),
       card_booleanProperty = Prim (PBool False),
       card_textProperty = Prim (PString ''What is your quest?''),
       card_specialEnumeration = Prim (PNumber (specialValsEnum_number coffee)),
       card_colorProperty = Prim (PString ''#8800FF''),
       card_nullableColorProperty = Prim (PString ''#00FF88''),
       card_formattingLableDisplayUnitsProperty = Prim (PNumber 0),
       card_formattingAlignmentProperty = Prim (PString ''right''),
       card_formattingFontSizeProperty = Prim (PNumber 10)\<rparr>\<rparr>"

text \<open>
  The override the host stores for a field of a section of the objects map, if any
  (\<^verbatim>\<open>objects[objectName][propertyName]\<close>, with every missing level giving none).
\<close>

definition override :: "DataViewObjects option \<Rightarrow> string \<Rightarrow> string \<Rightarrow> property_value option" where
  "override objs objectName propertyName =
     (case objs of
        None \<Rightarrow> None
      | Some os \<Rightarrow> (case os objectName of None \<Rightarrow> None | Some obj \<Rightarrow> obj propertyName))"

text \<open>
  An override is well-typed for a field when it is a value of the kind of the field's
  default: a boolean for a boolean, a number for a number, a string for a string, a
  fill for a fill.
\<close>

fun well_typed :: "property_value \<Rightarrow> property_value \<Rightarrow> bool" where
  "well_typed (Prim (PBool a)) (Prim (PBool b)) = True"
| "well_typed (Prim (PNumber a)) (Prim (PNumber b)) = True"
| "well_typed (Prim (PString a)) (Prim (PString b)) = True"
| "well_typed (Prim (PDate a)) (Prim (PDate b)) = True"
| "well_typed (FillValue a) (FillValue b) = True"
| "well_typed v d = False"

text \<open>
  Modelled from the spec: the helper \<open>getValue\<close> (the repository's object enumeration
  utility) is not among the sources. The spec's contract of the settings resolver: for
  each (section, field), the host-provided override if present and well-typed, else the
  compiled-in default; a missing objects map or section is "use the default", never an
  error.
\<close>

definition getValue ::
  "DataViewObjects option \<Rightarrow> string \<Rightarrow> string \<Rightarrow> property_value \<Rightarrow> property_value" where
  "getValue objs objectName propertyName defaultValue =
     (case override objs objectName propertyName of
        None \<Rightarrow> defaultValue
      | Some v \<Rightarrow> if well_typed v defaultValue then v else defaultValue)"

text \<open>
  The per-row override of a category column: \<^verbatim>\<open>category.objects[index][objectName][propertyName]\<close>,
  with every missing level giving none.
\<close>

definition categorical_override ::
  "DataViewCategoryColumn \<Rightarrow> nat \<Rightarrow> string \<Rightarrow> string \<Rightarrow> property_value option" where
  "categorical_override cat index objectName propertyName =
     (case cat_objects cat of
        None \<Rightarrow> None
      | Some rows \<Rightarrow>
          (case js_index rows index of
             None \<Rightarrow> None
           | Some row \<Rightarrow> override row objectName propertyName))"

text \<open>
  Modelled from the spec: the helper \<open>getCategoricalObjectValue\<close> (the repository's
  object enumeration utility) is not among the sources. The spec's contract of the
  per-row lookup: the per-row override if present, else the default handed in.
\<close>

definition getCategoricalObjectValue ::
  "DataViewCategoryColumn \<Rightarrow> nat \<Rightarrow> string \<Rightarrow> string \<Rightarrow> property_value \<Rightarrow> property_value" where
  "getCategoricalObjectValue cat index objectName propertyName defaultValue =
     (case categorical_override cat index objectName propertyName of
        None \<Rightarrow> defaultValue
      | Some v \<Rightarrow> v)"

text \<open>
  The member access \<^verbatim>\<open>.solid.color\<close> on what a lookup returned. On a fill with a
  \<open>solid\<close> member it is the colour; on a fill without one, and on a primitive (where
  \<open>.solid\<close> is \<open>undefined\<close> or the read itself fails), it raises a TypeError.
\<close>

definition solid_color :: "property_value \<Rightarrow> error + primitive" where
  "solid_color v =
     (case v of
        Prim p \<Rightarrow> Inl TypeError
      | FillValue f \<Rightarrow> (case solid f of None \<Rightarrow> Inl TypeError | Some s \<Rightarrow> Inr (color s)))"

definition getColumnColorByIndex ::
  "js_format \<Rightarrow> DataViewCategoryColumn \<Rightarrow> nat \<Rightarrow> ISandboxExtendedColorPalette
     \<Rightarrow> error + primitive" where
  "getColumnColorByIndex fmt cat index palette =
     (if isHighContrast palette then Inr (PString (info_value (background palette)))
      else
        let defaultColor = FillValue \<lparr>solid = Some \<lparr>color =
              PString (info_value (getColor palette
                (templateString fmt (prim_index (cat_values cat) index))))\<rparr>\<rparr>
        in solid_color (getCategoricalObjectValue cat index ''colorSelector'' ''fill'' defaultColor))"

definition getColumnStrokeColor :: "ISandboxExtendedColorPalette \<Rightarrow> primitive" where
  "getColumnStrokeColor palette =
     (if isHighContrast palette then PString (info_value (foreground palette)) else PNull)"

definition getColumnStrokeWidth :: "bool \<Rightarrow> real" where
  "getColumnStrokeWidth highContrast = (if highContrast then 2 else 0)"

definition getAxisTextFillColor ::
  "DataViewObjects option \<Rightarrow> ISandboxExtendedColorPalette \<Rightarrow> primitive \<Rightarrow> error + primitive" where
  "getAxisTextFillColor objs palette defaultColor =
     (if isHighContrast palette then Inr (PString (info_value (foreground palette)))
      else solid_color (getValue objs ''enableAxis'' ''fill''
             (FillValue \<lparr>solid = Some \<lparr>color = defaultColor\<rparr>\<rparr>)))"

text \<open>
  The object literal \<open>barChartSettings\<close> of \<open>visualTransform\<close>. Both cards take the
  default of their \<open>specialEnumeration\<close> from the section \<open>testAnalyticsProperty\<close>, as
  the source does.
\<close>

definition barChartSettings ::
  "DataViewObjects option \<Rightarrow> ISandboxExtendedColorPalette \<Rightarrow> primitive
     \<Rightarrow> error + BarChartSettings" where
  "barChartSettings objs palette strokeColor' =
     (case getAxisTextFillColor objs palette (ea_fill (enableAxis defaultSettings)) of
        Inl e \<Rightarrow> Inl e
      | Inr axisFill \<Rightarrow> Inr \<lparr>
          enableAxis = \<lparr>
            ea_show = getValue objs ''enableAxis'' ''show'' (ea_show (enableAxis defaultSettings)),
            ea_fill = axisFill\<rparr>,
          generalView = \<lparr>
            gv_opacity = getValue objs ''generalView'' ''opacity''
              (gv_opacity (generalView defaultSettings)),
            gv_showBugBashData = getValue objs ''generalView'' ''showBugBashData''
              (gv_showBugBashData (generalView defaultSettings)),
            gv_showHelpLink = getValue objs ''generalView'' ''showHelpLink''
              (gv_showHelpLink (generalView defaultSettings)),
            gv_helpLinkColor = strokeColor',
            gv_specialEnumeration = getValue objs ''generalView'' ''specialEnumeration''
              (gv_specialEnumeration (generalView defaultSettings))\<rparr>,
          testAnalyticsProperty = \<lparr>
            ta_show = getValue objs ''testAnalyticsProperty'' ''show''
              (ta_show (testAnalyticsProperty defaultSettings)),
            ta_displayName = getValue objs ''testAnalyticsProperty'' ''displayName''
              (ta_displayName (testAnalyticsProperty defaultSettings)),
            ta_opacity = getValue objs ''testAnalyticsProperty'' ''opacity''
              (ta_opacity (testAnalyticsProperty defaultSettings)),
            ta_showHelpLink = getValue objs ''testAnalyticsProperty'' ''showHelpLink''
              (ta_showHelpLink (testAnalyticsProperty defaultSettings)),
            ta_helpLinkColor = strokeColor',
            ta_specialEnumeration = getValue objs ''testAnalyticsProperty'' ''specialEnumeration''
              (ta_specialEnumeration (testAnalyticsProperty defaultSettings))\<rparr>,
          CardWithManyPropertiesAnalytics = \<lparr>
            card_show = getValue objs ''CardWithManyPropertiesAnalytics'' ''show''
              (card_show (CardWithManyPropertiesAnalytics defaultSettings)),
            card_displayName = getValue objs ''CardWithManyPropertiesAnalytics'' ''displayName''
              (card_displayName (CardWithManyPropertiesAnalytics defaultSettings)),
            card_unboundIntegerProperty = getValue objs ''CardWithManyPropertiesAnalytics'' ''unboundIntegerProperty''
              (card_unboundIntegerProperty (CardWithManyPropertiesAnalytics defaultSettings)),
            card_boundIntegerProperty = getValue objs ''CardWithManyPropertiesAnalytics'' ''boundIntegerProperty''
              (card_boundIntegerProperty (CardWithManyPropertiesAnalytics defaultSettings)),
            card_unboundNumericProperty = getValue objs ''CardWithManyPropertiesAnalytics'' ''unboundNumericProperty''
              (card_unboundNumericProperty (CardWithManyPropertiesAnalytics defaultSettings)),
            card_boundNumericProperty = getValue objs ''CardWithManyPropertiesAnalytics'' ''boundNumericProperty''
              (card_boundNumericProperty (CardWithManyPropertiesAnalytics defaultSettings)),
            card_booleanProperty = getValue objs ''CardWithManyPropertiesAnalytics'' ''booleanProperty''
              (card_booleanProperty (CardWithManyPropertiesAnalytics defaultSettings)),
            card_textProperty = getValue objs ''CardWithManyPropertiesAnalytics'' ''textProperty''
              (card_textProperty (CardWithManyPropertiesAnalytics defaultSettings)),
            card_specialEnumeration = getValue objs ''CardWithManyPropertiesAnalytics'' ''specialEnumeration''
              (ta_specialEnumeration (testAnalyticsProperty defaultSettings)),
            card_colorProperty = getValue objs ''CardWithManyPropertiesAnalytics'' ''colorProperty''
              (card_colorProperty (CardWithManyPropertiesAnalytics defaultSettings)),
            card_nullableColorProperty = getValue objs ''CardWithManyPropertiesAnalytics'' ''nullableColorProperty''
              (card_nullableColorProperty (CardWithManyPropertiesAnalytics defaultSettings)),
            card_formattingLableDisplayUnitsProperty = getValue objs ''CardWithManyPropertiesAnalytics'' ''formattingLableDisplayUnitsProperty''
              (card_formattingLableDisplayUnitsProperty (CardWithManyPropertiesAnalytics defaultSettings)),
            card_formattingAlignmentProperty = getValue objs ''CardWithManyPropertiesAnalytics'' ''formattingAlignmentProperty''
              (card_formattingAlignmentProperty (CardWithManyPropertiesAnalytics defaultSettings)),
            card_formattingFontSizeProperty = getValue objs ''CardWithManyPropertiesAnalytics'' ''formattingFontSizeProperty''
              (card_formattingFontSizeProperty (CardWithManyPropertiesAnalytics defaultSettings))\<rparr>,
          CardWithManyPropertiesFormatting = \<lparr>
            card_show = getValue objs ''CardWithManyPropertiesFormatting'' ''show''
              (card_show (CardWithManyPropertiesFormatting defaultSettings)),
            card_displayName = getValue objs ''CardWithManyPropertiesFormatting'' ''displayName''
              (card_displayName (CardWithManyPropertiesFormatting defaultSettings)),
            card_unboundIntegerProperty = getValue objs ''CardWithManyPropertiesFormatting'' ''unboundIntegerProperty''
              (card_unboundIntegerProperty (CardWithManyPropertiesFormatting defaultSettings)),
            card_boundIntegerProperty = getValue objs ''CardWithManyPropertiesFormatting'' ''boundIntegerProperty''
              (card_boundIntegerProperty (CardWithManyPropertiesFormatting defaultSettings)),
            card_unboundNumericProperty = getValue objs ''CardWithManyPropertiesFormatting'' ''unboundNumericProperty''
              (card_unboundNumericProperty (CardWithManyPropertiesFormatting defaultSettings)),
            card_boundNumericProperty = getValue objs ''CardWithManyPropertiesFormatting'' ''boundNumericProperty''
              (card_boundNumericProperty (CardWithManyPropertiesFormatting defaultSettings)),
            card_booleanProperty = getValue objs ''CardWithManyPropertiesFormatting'' ''booleanProperty''
              (card_booleanProperty (CardWithManyPropertiesFormatting defaultSettings)),
            card_textProperty = getValue objs ''CardWithManyPropertiesFormatting'' ''textProperty''
              (card_textProperty (CardWithManyPropertiesFormatting defaultSettings)),
            card_specialEnumeration = getValue objs ''CardWithManyPropertiesFormatting'' ''specialEnumeration''
              (ta_specialEnumeration (testAnalyticsProperty defaultSettings)),
            card_colorProperty = getValue objs ''CardWithManyPropertiesFormatting'' ''colorProperty''
              (card_colorProperty (CardWithManyPropertiesFormatting defaultSettings)),
            card_nullableColorProperty = getValue objs ''CardWithManyPropertiesFormatting'' ''nullableColorProperty''
              (card_nullableColorProperty (CardWithManyPropertiesFormatting defaultSettings)),
            card_formattingLableDisplayUnitsProperty = getValue objs ''CardWithManyPropertiesFormatting'' ''formattingLableDisplayUnitsProperty''
              (card_formattingLableDisplayUnitsProperty (CardWithManyPropertiesFormatting defaultSettings)),
            card_formattingAlignmentProperty = getValue objs ''CardWithManyPropertiesFormatting'' ''formattingAlignmentProperty''
              (card_formattingAlignmentProperty (CardWithManyPropertiesFormatting defaultSettings)),
            card_formattingFontSizeProperty = getValue objs ''CardWithManyPropertiesFormatting'' ''formattingFontSizeProperty''
              (card_formattingFontSizeProperty (CardWithManyPropertiesFormatting defaultSettings))\<rparr>\<rparr>)"

section \<open>The view-model builder\<close>

text \<open>
  The \<open>for\<close> loop of \<open>visualTransform\<close>, from index \<open>i\<close> up to \<open>len\<close>, pushing onto
  the points built so far. A TypeError raised while a colour is resolved ends it.
\<close>

function dataPointsLoop ::
  "js_format \<Rightarrow> 'sid IVisualHost \<Rightarrow> DataViewCategoryColumn \<Rightarrow> DataViewValueColumn
     \<Rightarrow> primitive \<Rightarrow> real \<Rightarrow> nat \<Rightarrow> nat \<Rightarrow> 'sid BarChartDataPoint list
     \<Rightarrow> error + 'sid BarChartDataPoint list" where
  "dataPointsLoop fmt host cat dataValue strokeColor' strokeWidth' i len barChartDataPoints =
     (if i < len then
        (case getColumnColorByIndex fmt cat i (colorPalette host) of
           Inl e \<Rightarrow> Inl e
         | Inr color' \<Rightarrow>
             dataPointsLoop fmt host cat dataValue strokeColor' strokeWidth' (Suc i) len
               (barChartDataPoints @
                 [\<lparr>dp_value = prim_index (val_values dataValue) i,
                   category = templateString fmt (prim_index (cat_values cat) i),
                   dp_color = color',
                   strokeColor = strokeColor',
                   strokeWidth = strokeWidth',
                   selectionId = Some (createSelectionId host cat i)\<rparr>]))
      else Inr barChartDataPoints)"
  by pat_completeness auto
termination
  by (relation "measure (\<lambda>(fmt, host, cat, dataValue, sc, sw, i, len, acc). len - i)") auto

declare dataPointsLoop.simps [simp del]

definition visualTransform ::
  "js_format \<Rightarrow> 'sid IVisualHost \<Rightarrow> VisualUpdateOptions \<Rightarrow> error + 'sid BarChartViewModel" where
  "visualTransform fmt host options =
     (let viewModel = \<lparr>dataPoints = [], dataMax = PNumber 0, settings = None\<rparr> in
      case dataViews options of
        None \<Rightarrow> Inr viewModel
      | Some dvs \<Rightarrow>
      (case js_index dvs 0 of
        None \<Rightarrow> Inr viewModel
      | Some dv \<Rightarrow>
      (case categorical dv of
        None \<Rightarrow> Inr viewModel
      | Some categorical' \<Rightarrow>
      (case categories categorical' of
        None \<Rightarrow> Inr viewModel
      | Some cats \<Rightarrow>
      (case js_index cats 0 of
        None \<Rightarrow> Inl TypeError
      | Some cat \<Rightarrow>
      (case source cat of
        None \<Rightarrow> Inr viewModel
      | Some src \<Rightarrow>
      (case categorical_values categorical' of
        None \<Rightarrow> Inr viewModel
      | Some vals \<Rightarrow>
          (let palette = colorPalette host;
               objs = objects (metadata dv);
               strokeColor' = getColumnStrokeColor palette
           in case barChartSettings objs palette strokeColor' of
                Inl e \<Rightarrow> Inl e
              | Inr settings' \<Rightarrow>
                  (let strokeWidth' = getColumnStrokeWidth (isHighContrast palette)
                   in case js_index vals 0 of
                        None \<Rightarrow> Inl TypeError
                      | Some dataValue \<Rightarrow>
                          (case dataPointsLoop fmt host cat dataValue strokeColor' strokeWidth' 0
                                  (max (length (cat_values cat)) (length (val_values dataValue))) [] of
                             Inl e \<Rightarrow> Inl e
                           | Inr points \<Rightarrow>
                               Inr \<lparr>dataPoints = points, dataMax = maxLocal dataValue,
                                    settings = Some settings'\<rparr>))))))))))"

section \<open>Selection highlighting\<close>

text \<open>
  A rendered bar: the data point bound to the \<open>rect\<close> and its inline styles. A d3
  selection of bars is the list of them.
\<close>

record 'sid bar =
  datum :: "'sid BarChartDataPoint"
  inline_style :: "string \<rightharpoonup> primitive"

text \<open>
  d3's \<open>style\<close> with one name and value: \<open>null\<close> removes the inline property, any
  other value sets it.
\<close>

definition style1 :: "string \<Rightarrow> primitive \<Rightarrow> 'sid bar \<Rightarrow> 'sid bar" where
  "style1 name v b =
     (if v = PNull \<or> v = PUndefined
      then b\<lparr>inline_style := (inline_style b)(name := None)\<rparr>
      else b\<lparr>inline_style := (inline_style b)(name \<mapsto> v)\<rparr>)"

text \<open>d3's \<open>style\<close> with an object of names and values.\<close>

fun style_all :: "(string \<times> primitive) list \<Rightarrow> 'sid bar \<Rightarrow> 'sid bar" where
  "style_all [] b = b"
| "style_all ((name, v) # rest) b = style_all rest (style1 name v b)"

record BarChartMargins =
  margin_top :: real
  margin_right :: real
  margin_bottom :: real
  margin_left :: real

record BarChartConfig =
  xScalePadding :: real
  solidOpacity :: real
  transparentOpacity :: real
  margins :: BarChartMargins
  xAxisFontMultiplier :: real

definition Config :: BarChartConfig where
  "Config = \<lparr>xScalePadding = 0.1, solidOpacity = 1, transparentOpacity = 0.4,
     margins = \<lparr>margin_top = 0, margin_right = 0, margin_bottom = 25, margin_left = 30\<rparr>,
     xAxisFontMultiplier = 0.04\<rparr>"

text \<open>
  \<open>isSelectionIdInArray\<close>. The containment test \<open>includes\<close> is the selection id's own
  method, given by the host.
\<close>

definition isSelectionIdInArray ::
  "('sid \<Rightarrow> 'sid \<Rightarrow> bool) \<Rightarrow> 'sid list option \<Rightarrow> 'sid option \<Rightarrow> bool" where
  "isSelectionIdInArray includes selectionIds selId =
     (case selectionIds of
        None \<Rightarrow> False
      | Some ids \<Rightarrow>
          (case selId of
             None \<Rightarrow> False
           | Some s \<Rightarrow> list_ex (\<lambda>currentSelectionId. includes currentSelectionId s) ids))"

text \<open>
  \<open>syncSelectionState\<close>: the bars are mutated in place in the source; here the
  selection is returned as it is after the call.
\<close>

definition syncSelectionState ::
  "('sid \<Rightarrow> 'sid \<Rightarrow> bool) \<Rightarrow> 'sid bar list option \<Rightarrow> 'sid list option
     \<Rightarrow> 'sid bar list option" where
  "syncSelectionState includes selection selectionIds =
     (case selection of
        None \<Rightarrow> None
      | Some bars \<Rightarrow>
          (case selectionIds of
             None \<Rightarrow> Some bars
           | Some ids \<Rightarrow>
               if length ids = 0
               then Some (map (style_all [(''fill-opacity'', PNull),
                                          (''stroke-opacity'', PNull)]) bars)
               else Some (map (\<lambda>b.
                      let isSelected =
                            isSelectionIdInArray includes (Some ids) (selectionId (datum b));
                          opacity = (if isSelected then solidOpacity Config
                                     else transparentOpacity Config)
                      in style_all [(''fill-opacity'', PNumber opacity),
                                    (''stroke-opacity'', PNumber opacity)] b) bars)))"

section \<open>Notions the stated properties use\<close>

text \<open>
  The options with everything but the first data view, its first category column and
  its first value column dropped.
\<close>

definition first_columns_only :: "VisualUpdateOptions \<Rightarrow> VisualUpdateOptions" where
  "first_columns_only options =
     options\<lparr>dataViews :=
       map_option (\<lambda>dvs. map (\<lambda>dv. dv\<lparr>categorical :=
           map_option (\<lambda>c. c\<lparr>categories := map_option (take 1) (categories c),
                                categorical_values := map_option (take 1) (categorical_values c)\<rparr>)
             (categorical dv)\<rparr>) (take 1 dvs))
         (dataViews options)\<rparr>"

text \<open>
  The largest value across a series of data points, in the words of the data model: the
  greatest of the numbers among the points' values, if there is one.
\<close>

fun numbers_of :: "primitive list \<Rightarrow> real list" where
  "numbers_of [] = []"
| "numbers_of (PNumber r # vs) = r # numbers_of vs"
| "numbers_of (v # vs) = numbers_of vs"

fun greatest :: "real list \<Rightarrow> real option" where
  "greatest [] = None"
| "greatest (r # rs) = (case greatest rs of None \<Rightarrow> Some r | Some m \<Rightarrow> Some (max r m))"

definition largest_value :: "'sid BarChartDataPoint list \<Rightarrow> real option" where
  "largest_value points = greatest (numbers_of (map dp_value points))"

section \<open>A sample update\<close>

text \<open>
  Three categories against two values (so the value column is the shorter one), a
  per-row colour override on the second category, and a host aggregate \<open>maxLocal\<close>
  of 10.
\<close>

definition sample_format :: js_format where
  "sample_format = \<lparr>numberToString = (\<lambda>r. ''number''), dateToString = (\<lambda>d. ''date'')\<rparr>"

definition sample_palette :: "bool \<Rightarrow> ISandboxExtendedColorPalette" where
  "sample_palette highContrast =
     \<lparr>isHighContrast = highContrast,
      foreground = \<lparr>info_value = ''#FFFFFF''\<rparr>,
      background = \<lparr>info_value = ''#000000''\<rparr>,
      getColor = (\<lambda>name. \<lparr>info_value = ''palette:'' @ name\<rparr>)\<rparr>"

definition sample_host :: "bool \<Rightarrow> nat IVisualHost" where
  "sample_host highContrast =
     \<lparr>colorPalette = sample_palette highContrast, createSelectionId = (\<lambda>cat i. i)\<rparr>"

definition sample_category :: DataViewCategoryColumn where
  "sample_category =
     \<lparr>source = Some \<lparr>col_displayName = ''Fruit''\<rparr>,
      cat_values = [PString ''apple'', PString ''pear'', PString ''fig''],
      cat_objects = Some [None,
        Some [''colorSelector'' \<mapsto>
          [''fill'' \<mapsto> FillValue \<lparr>solid = Some \<lparr>color = PString ''#FF0000''\<rparr>\<rparr>]]]\<rparr>"

definition sample_values :: DataViewValueColumn where
  "sample_values = \<lparr>val_values = [PNumber 1, PNumber 3], maxLocal = PNumber 10\<rparr>"

definition sample_objects :: DataViewObjects where
  "sample_objects =
     [''enableAxis'' \<mapsto>
        [''fill'' \<mapsto> FillValue \<lparr>solid = Some \<lparr>color = PString ''#00FF00''\<rparr>\<rparr>],
      ''generalView'' \<mapsto> [''opacity'' \<mapsto> Prim (PNumber 50)]]"

definition sample_view :: "DataViewObjects option \<Rightarrow> DataView" where
  "sample_view objs =
     \<lparr>categorical = Some \<lparr>categories = Some [sample_category],
                           categorical_values = Some [sample_values]\<rparr>,
      metadata = \<lparr>objects = objs\<rparr>\<rparr>"

definition sample_options :: "DataViewObjects option \<Rightarrow> VisualUpdateOptions" where
  "sample_options objs = \<lparr>dataViews = Some [sample_view objs]\<rparr>"

definition sample_bar :: "nat \<Rightarrow> nat bar" where
  "sample_bar token =
     \<lparr>datum = \<lparr>dp_value = PNumber 1, category = ''apple'', dp_color = PString ''#FF0000'',
                strokeColor = PNull, strokeWidth = 0, selectionId = Some token\<rparr>,
      inline_style = [''fill-opacity'' \<mapsto> PNumber 0.5, ''stroke-opacity'' \<mapsto> PNumber 0.5,
                      ''fill'' \<mapsto> PString ''#FF0000'']\<rparr>"

section \<open>Reading arrays\<close>

lemma js_index_Nil [simp]: "js_index [] i = None"
  by (simp add: js_index_def)

lemma js_index_Cons_0 [simp]: "js_index (x # xs) 0 = Some x"
  by (simp add: js_index_def)

section \<open>The loop over the rows\<close>

lemma prim_index_in: "i < length xs \<Longrightarrow> prim_index xs i = xs ! i"
  by (simp add: prim_index_def js_index_def)

lemma prim_index_out: "length xs \<le> i \<Longrightarrow> prim_index xs i = PUndefined"
  by (simp add: prim_index_def js_index_def)


lemma dataPointsLoop_Inr:
  "dataPointsLoop fmt host cat dataValue sc sw i len acc = Inr pts \<Longrightarrow>
   pts = acc @ map (\<lambda>j. \<lparr>dp_value = prim_index (val_values dataValue) j,
                         category = templateString fmt (prim_index (cat_values cat) j),
                         dp_color = projr (getColumnColorByIndex fmt cat j (colorPalette host)),
                         strokeColor = sc, strokeWidth = sw,
                         selectionId = Some (createSelectionId host cat j)\<rparr>) [i..<len]
   \<and> (\<forall>j. i \<le> j \<and> j < len \<longrightarrow>
          getColumnColorByIndex fmt cat j (colorPalette host)
            = Inr (projr (getColumnColorByIndex fmt cat j (colorPalette host))))"
proof (induction fmt host cat dataValue sc sw i len acc arbitrary: pts rule: dataPointsLoop.induct)
  case (1 fmt host cat dataValue sc sw i len acc)
  show ?case
  proof (cases "i < len")
    case False
    with "1.prems" have "pts = acc" by (subst (asm) dataPointsLoop.simps) simp
    with False show ?thesis by auto
  next
    case True
    from "1.prems" True obtain c where
      c: "getColumnColorByIndex fmt cat i (colorPalette host) = Inr c"
      by (subst (asm) dataPointsLoop.simps) (auto split: sum.splits)
    let ?p = "\<lparr>dp_value = prim_index (val_values dataValue) i,
                category = templateString fmt (prim_index (cat_values cat) i),
                dp_color = c, strokeColor = sc, strokeWidth = sw,
                selectionId = Some (createSelectionId host cat i)\<rparr>"
    from "1.prems" True c have
      rec: "dataPointsLoop fmt host cat dataValue sc sw (Suc i) len (acc @ [?p]) = Inr pts"
      by (subst (asm) dataPointsLoop.simps) simp
    note ih = "1.IH"[OF True c rec]
    have upt: "[i..<len] = i # [Suc i..<len]" using True by (simp add: upt_conv_Cons)
    have ci: "projr (getColumnColorByIndex fmt cat i (colorPalette host)) = c"
      using c by simp
    have eq: "pts = acc @ map (\<lambda>j. \<lparr>dp_value = prim_index (val_values dataValue) j,
                         category = templateString fmt (prim_index (cat_values cat) j),
                         dp_color = projr (getColumnColorByIndex fmt cat j (colorPalette host)),
                         strokeColor = sc, strokeWidth = sw,
                         selectionId = Some (createSelectionId host cat j)\<rparr>) [i..<len]"
      using ih ci by (simp add: upt)
    have ok: "getColumnColorByIndex fmt cat j (colorPalette host)
            = Inr (projr (getColumnColorByIndex fmt cat j (colorPalette host)))"
      if "i \<le> j \<and> j < len" for j
    proof (cases "j = i")
      case True
      then show ?thesis using c ci by simp
    next
      case False
      with that have "Suc i \<le> j \<and> j < len" by arith
      with ih show ?thesis by blast
    qed
    from eq ok show ?thesis by blast
  qed
qed

lemma dataPointsLoop_total:
  "(\<forall>j. i \<le> j \<and> j < len \<longrightarrow> (\<exists>c. getColumnColorByIndex fmt cat j (colorPalette host) = Inr c)) \<Longrightarrow>
   \<exists>pts. dataPointsLoop fmt host cat dataValue sc sw i len acc = Inr pts"
proof (induction fmt host cat dataValue sc sw i len acc rule: dataPointsLoop.induct)
  case (1 fmt host cat dataValue sc sw i len acc)
  show ?case
  proof (cases "i < len")
    case False
    then show ?thesis by (simp add: dataPointsLoop.simps)
  next
    case True
    with "1.prems" obtain c where
      c: "getColumnColorByIndex fmt cat i (colorPalette host) = Inr c" by auto
    have "\<exists>pts. dataPointsLoop fmt host cat dataValue sc sw (Suc i) len
            (acc @ [\<lparr>dp_value = prim_index (val_values dataValue) i,
                category = templateString fmt (prim_index (cat_values cat) i),
                dp_color = c, strokeColor = sc, strokeWidth = sw,
                selectionId = Some (createSelectionId host cat i)\<rparr>]) = Inr pts"
      using "1.prems" by (intro "1.IH"[OF True c]) auto
    then show ?thesis using True c by (subst dataPointsLoop.simps) simp
  qed
qed


section \<open>The shape of the transform\<close>

lemma visualTransform_columns:
  assumes "dataViews options = Some (dv # dvs)" and "categorical dv = Some cl"
    and "categories cl = Some (cat # cats)" and "source cat = Some src"
    and "categorical_values cl = Some (dataValue # vals)"
  shows "visualTransform fmt host options =
    (case barChartSettings (objects (metadata dv)) (colorPalette host)
            (getColumnStrokeColor (colorPalette host)) of
       Inl e \<Rightarrow> Inl e
     | Inr settings' \<Rightarrow>
        (case dataPointsLoop fmt host cat dataValue (getColumnStrokeColor (colorPalette host))
                (getColumnStrokeWidth (isHighContrast (colorPalette host))) 0
                (max (length (cat_values cat)) (length (val_values dataValue))) [] of
           Inl e \<Rightarrow> Inl e
         | Inr points \<Rightarrow> Inr \<lparr>dataPoints = points, dataMax = maxLocal dataValue,
                               settings = Some settings'\<rparr>))"
  using assms by (simp add: visualTransform_def Let_def split: sum.splits)

lemma visualTransform_Inr_columns:
  assumes "dataViews options = Some (dv # dvs)" and "categorical dv = Some cl"
    and "categories cl = Some (cat # cats)" and "source cat = Some src"
    and "categorical_values cl = Some (dataValue # vals)"
    and res: "visualTransform fmt host options = Inr vm"
  shows "barChartSettings (objects (metadata dv)) (colorPalette host)
            (getColumnStrokeColor (colorPalette host)) = Inr (the (settings vm))"
    and "settings vm \<noteq> None"
    and "dataMax vm = maxLocal dataValue"
    and "dataPointsLoop fmt host cat dataValue (getColumnStrokeColor (colorPalette host))
                (getColumnStrokeWidth (isHighContrast (colorPalette host))) 0
                (max (length (cat_values cat)) (length (val_values dataValue))) []
          = Inr (dataPoints vm)"
  using res unfolding visualTransform_columns[OF assms(1-5)]
  by (auto split: sum.splits)

lemma visualTransform_cases:
  assumes "visualTransform fmt host options = Inr vm"
  shows "vm = \<lparr>dataPoints = [], dataMax = PNumber 0, settings = None\<rparr>
       \<or> (\<exists>dv dvs cl cat cats src dataValue vals.
            dataViews options = Some (dv # dvs) \<and> categorical dv = Some cl \<and>
            categories cl = Some (cat # cats) \<and> source cat = Some src \<and>
            categorical_values cl = Some (dataValue # vals))"
proof (cases "dataViews options")
  case None
  with assms show ?thesis by (simp add: visualTransform_def)
next
  case (Some views)
  show ?thesis
  proof (cases views)
    case Nil
    with Some assms show ?thesis by (simp add: visualTransform_def)
  next
    case (Cons dv dvs)
    note views = Some Cons
    show ?thesis
    proof (cases "categorical dv")
      case None
      with views assms show ?thesis by (simp add: visualTransform_def)
    next
      case (Some cl)
      note cl = this
      show ?thesis
      proof (cases "categories cl")
        case None
        with views cl assms show ?thesis by (simp add: visualTransform_def)
      next
        case (Some cs)
        note cs = this
        show ?thesis
        proof (cases cs)
          case Nil
          with views cl cs assms show ?thesis by (simp add: visualTransform_def)
        next
          case (Cons cat cats)
          note cat = this
          show ?thesis
          proof (cases "source cat")
            case None
            with views cl cs cat assms show ?thesis by (simp add: visualTransform_def)
          next
            case (Some src)
            note src = this
            show ?thesis
            proof (cases "categorical_values cl")
              case None
              with views cl cs cat src assms show ?thesis by (simp add: visualTransform_def)
            next
              case (Some vs)
              note vs = this
              show ?thesis
              proof (cases vs)
                case Nil
                with views cl cs cat src vs assms show ?thesis
                  by (simp add: visualTransform_def Let_def split: sum.splits)
              next
                case (Cons dataValue vals)
                with views cl cs cat src vs show ?thesis by simp
              qed
            qed
          qed
        qed
      qed
    qed
  qed
qed

lemma dataPoints_nth:
  assumes loop: "dataPointsLoop fmt host cat dataValue sc sw 0 len [] = Inr pts"
  shows "length pts = len"
    and "i < len \<Longrightarrow> dp_value (pts ! i) = prim_index (val_values dataValue) i"
    and "i < len \<Longrightarrow> category (pts ! i) = templateString fmt (prim_index (cat_values cat) i)"
    and "i < len \<Longrightarrow> getColumnColorByIndex fmt cat i (colorPalette host) = Inr (dp_color (pts ! i))"
    and "i < len \<Longrightarrow> strokeColor (pts ! i) = sc"
    and "i < len \<Longrightarrow> strokeWidth (pts ! i) = sw"
    and "i < len \<Longrightarrow> selectionId (pts ! i) = Some (createSelectionId host cat i)"
proof -
  note r = dataPointsLoop_Inr[OF loop]
  from r have pts: "pts = map (\<lambda>j. \<lparr>dp_value = prim_index (val_values dataValue) j,
                         category = templateString fmt (prim_index (cat_values cat) j),
                         dp_color = projr (getColumnColorByIndex fmt cat j (colorPalette host)),
                         strokeColor = sc, strokeWidth = sw,
                         selectionId = Some (createSelectionId host cat j)\<rparr>) [0..<len]"
    by simp
  from r have ok: "\<And>j. j < len \<Longrightarrow> getColumnColorByIndex fmt cat j (colorPalette host)
            = Inr (projr (getColumnColorByIndex fmt cat j (colorPalette host)))"
    by simp
  show "length pts = len" by (simp add: pts)
  show "i < len \<Longrightarrow> dp_value (pts ! i) = prim_index (val_values dataValue) i"
    by (simp add: pts)
  show "i < len \<Longrightarrow> category (pts ! i) = templateString fmt (prim_index (cat_values cat) i)"
    by (simp add: pts)
  show "i < len \<Longrightarrow> getColumnColorByIndex fmt cat i (colorPalette host) = Inr (dp_color (pts ! i))"
    using ok[of i] by (simp add: pts)
  show "i < len \<Longrightarrow> strokeColor (pts ! i) = sc" by (simp add: pts)
  show "i < len \<Longrightarrow> strokeWidth (pts ! i) = sw" by (simp add: pts)
  show "i < len \<Longrightarrow> selectionId (pts ! i) = Some (createSelectionId host cat i)"
    by (simp add: pts)
qed

lemma visualTransform_length:
  assumes "dataViews options = Some (dv # dvs)" and "categorical dv = Some cl"
    and "categories cl = Some (cat # cats)" and "source cat = Some src"
    and "categorical_values cl = Some (dataValue # vals)"
    and "visualTransform fmt host options = Inr vm"
  shows "length (dataPoints vm) = max (length (cat_values cat)) (length (val_values dataValue))"
  by (rule dataPoints_nth(1)[OF visualTransform_Inr_columns(4)[OF assms]])

section \<open>Data points: count and order\<close>

lemmas sample_defs = sample_format_def sample_palette_def sample_host_def sample_category_def
  sample_values_def sample_objects_def sample_view_def sample_options_def

lemmas transform_defs = visualTransform_def barChartSettings_def getAxisTextFillColor_def
  getValue_def override_def solid_color_def getColumnStrokeColor_def getColumnStrokeWidth_def
  dataPointsLoop.simps getColumnColorByIndex_def getCategoricalObjectValue_def
  categorical_override_def js_index_def prim_index_def defaultSettings_def Let_def

text \<open>
  C1. When the first data view has a first category column with a source and a first
  value column, the view model that \<open>visualTransform\<close> returns holds exactly
  max(length of the category column, length of the value column) data points, \<open>n\<close>
  of them when both columns have length \<open>n\<close>. They are in column order: point \<open>i\<close>
  carries the stringified category \<open>i\<close>, the value \<open>i\<close> and the selection id of row
  \<open>i\<close>; beyond the end of the value column the value is \<open>undefined\<close>.
\<close>

theorem visualTransform_dataPoints:
  assumes "dataViews options = Some (dv # dvs)" and "categorical dv = Some cl"
    and "categories cl = Some (cat # cats)" and "source cat = Some src"
    and "categorical_values cl = Some (dataValue # vals)"
    and "visualTransform fmt host options = Inr vm"
  shows "length (dataPoints vm) = max (length (cat_values cat)) (length (val_values dataValue))
     \<and> (length (cat_values cat) = length (val_values dataValue) \<longrightarrow>
          length (dataPoints vm) = length (cat_values cat))
     \<and> (\<forall>i < length (dataPoints vm).
          category (dataPoints vm ! i) = templateString fmt (prim_index (cat_values cat) i)
        \<and> dp_value (dataPoints vm ! i) = prim_index (val_values dataValue) i
        \<and> selectionId (dataPoints vm ! i) = Some (createSelectionId host cat i)
        \<and> (i < length (cat_values cat) \<longrightarrow>
             category (dataPoints vm ! i) = templateString fmt (cat_values cat ! i))
        \<and> (i < length (val_values dataValue) \<longrightarrow>
             dp_value (dataPoints vm ! i) = val_values dataValue ! i)
        \<and> (length (val_values dataValue) \<le> i \<longrightarrow> dp_value (dataPoints vm ! i) = PUndefined))"
proof -
  note loop = visualTransform_Inr_columns(4)[OF assms]
  note nth = dataPoints_nth[OF loop]
  have len: "length (dataPoints vm) = max (length (cat_values cat)) (length (val_values dataValue))"
    by (rule nth(1))
  moreover have "length (cat_values cat) = length (val_values dataValue) \<longrightarrow>
          length (dataPoints vm) = length (cat_values cat)"
    using len by simp
  moreover have "\<forall>i < length (dataPoints vm).
          category (dataPoints vm ! i) = templateString fmt (prim_index (cat_values cat) i)
        \<and> dp_value (dataPoints vm ! i) = prim_index (val_values dataValue) i
        \<and> selectionId (dataPoints vm ! i) = Some (createSelectionId host cat i)
        \<and> (i < length (cat_values cat) \<longrightarrow>
             category (dataPoints vm ! i) = templateString fmt (cat_values cat ! i))
        \<and> (i < length (val_values dataValue) \<longrightarrow>
             dp_value (dataPoints vm ! i) = val_values dataValue ! i)
        \<and> (length (val_values dataValue) \<le> i \<longrightarrow> dp_value (dataPoints vm ! i) = PUndefined)"
  proof (intro allI impI)
    fix i assume "i < length (dataPoints vm)"
    then have i: "i < max (length (cat_values cat)) (length (val_values dataValue))"
      using len by simp
    show "category (dataPoints vm ! i) = templateString fmt (prim_index (cat_values cat) i)
        \<and> dp_value (dataPoints vm ! i) = prim_index (val_values dataValue) i
        \<and> selectionId (dataPoints vm ! i) = Some (createSelectionId host cat i)
        \<and> (i < length (cat_values cat) \<longrightarrow>
             category (dataPoints vm ! i) = templateString fmt (cat_values cat ! i))
        \<and> (i < length (val_values dataValue) \<longrightarrow>
             dp_value (dataPoints vm ! i) = val_values dataValue ! i)
        \<and> (length (val_values dataValue) \<le> i \<longrightarrow> dp_value (dataPoints vm ! i) = PUndefined)"
      using nth(2)[OF i] nth(3)[OF i] nth(7)[OF i]
      by (simp add: prim_index_in prim_index_out)
  qed
  ultimately show ?thesis by blast
qed

theorem visualTransform_dataPoints_witness:
  "\<exists>vm. visualTransform sample_format (sample_host False) (sample_options None) = Inr vm
     \<and> length (dataPoints vm) = 3
     \<and> category (dataPoints vm ! 2) = ''fig''
     \<and> dp_value (dataPoints vm ! 1) = PNumber 3
     \<and> dp_value (dataPoints vm ! 2) = PUndefined"
proof -
  obtain vm where vm: "visualTransform sample_format (sample_host False) (sample_options None) = Inr vm"
    by (simp add: transform_defs sample_defs)
  have h: "dataViews (sample_options None) = Some (sample_view None # [])"
    "categorical (sample_view None) = Some \<lparr>categories = Some [sample_category],
                           categorical_values = Some [sample_values]\<rparr>"
    "categories \<lparr>categories = Some [sample_category],
                           categorical_values = Some [sample_values]\<rparr> = Some (sample_category # [])"
    "source sample_category = Some \<lparr>col_displayName = ''Fruit''\<rparr>"
    "categorical_values \<lparr>categories = Some [sample_category],
                           categorical_values = Some [sample_values]\<rparr> = Some (sample_values # [])"
    by (simp_all add: sample_options_def sample_view_def sample_category_def)
  note t = visualTransform_dataPoints[OF h vm]
  from t have len: "length (dataPoints vm) = 3"
    by (simp add: sample_category_def sample_values_def)
  from t have "2 < length (dataPoints vm) \<longrightarrow>
       category (dataPoints vm ! 2) = templateString sample_format (prim_index (cat_values sample_category) 2)
       \<and> dp_value (dataPoints vm ! 2) = prim_index (val_values sample_values) 2"
    by blast
  with len have p2: "category (dataPoints vm ! 2) = ''fig''" "dp_value (dataPoints vm ! 2) = PUndefined"
    by (simp_all add: sample_category_def sample_values_def prim_index_def js_index_def)
  from t have "1 < length (dataPoints vm) \<longrightarrow>
       dp_value (dataPoints vm ! 1) = prim_index (val_values sample_values) 1"
    by blast
  with len have p1: "dp_value (dataPoints vm ! 1) = PNumber 3"
    by (simp add: sample_values_def prim_index_def js_index_def)
  from vm len p1 p2 show ?thesis by blast
qed

section \<open>High-contrast mode\<close>

lemma getColumnColorByIndex_highContrast:
  "isHighContrast palette \<Longrightarrow>
   getColumnColorByIndex fmt cat i palette = Inr (PString (info_value (background palette)))"
  by (simp add: getColumnColorByIndex_def)

lemma barChartSettings_helpLinkColor:
  "barChartSettings objs palette sc = Inr s \<Longrightarrow>
   gv_helpLinkColor (generalView s) = sc \<and> ta_helpLinkColor (testAnalyticsProperty s) = sc"
  by (auto simp: barChartSettings_def split: sum.splits)

lemma barChartSettings_highContrast:
  "isHighContrast palette \<Longrightarrow>
   \<exists>s. barChartSettings objs palette sc = Inr s"
  by (simp add: barChartSettings_def getAxisTextFillColor_def)

lemma barChartSettings_highContrast_fill:
  "isHighContrast palette \<Longrightarrow> barChartSettings objs palette sc = Inr s \<Longrightarrow>
   ea_fill (enableAxis s) = PString (info_value (foreground palette))"
  by (auto simp: barChartSettings_def getAxisTextFillColor_def)

lemma sample_columns:
  "dataViews (sample_options objs) = Some (sample_view objs # [])"
  "categorical (sample_view objs) = Some \<lparr>categories = Some [sample_category],
                           categorical_values = Some [sample_values]\<rparr>"
  "categories \<lparr>categories = Some [sample_category],
                           categorical_values = Some [sample_values]\<rparr> = Some (sample_category # [])"
  "source sample_category = Some \<lparr>col_displayName = ''Fruit''\<rparr>"
  "categorical_values \<lparr>categories = Some [sample_category],
                           categorical_values = Some [sample_values]\<rparr> = Some (sample_values # [])"
  by (simp_all add: sample_options_def sample_view_def sample_category_def)

text \<open>
  C2. With the palette's high-contrast flag set, every data point of a view model that
  \<open>visualTransform\<close> returns has stroke width 2, the palette's background colour as
  its fill and the palette's foreground colour as its stroke; the resolved settings have
  the foreground colour as axis fill and as help-link colour. This holds whatever the
  objects map and the per-row \<open>colorSelector\<close> objects hold, and no override makes
  the transform fail: on a data view with a first category column and a first value
  column it returns a view model with resolved settings.
\<close>

theorem visualTransform_highContrast:
  assumes hc: "isHighContrast (colorPalette host)"
  shows "(\<forall>vm. visualTransform fmt host options = Inr vm \<longrightarrow>
            (\<forall>p \<in> set (dataPoints vm).
               strokeWidth p = 2
             \<and> dp_color p = PString (info_value (background (colorPalette host)))
             \<and> strokeColor p = PString (info_value (foreground (colorPalette host))))
          \<and> (\<forall>s. settings vm = Some s \<longrightarrow>
               ea_fill (enableAxis s) = PString (info_value (foreground (colorPalette host)))
             \<and> gv_helpLinkColor (generalView s) = PString (info_value (foreground (colorPalette host)))
             \<and> ta_helpLinkColor (testAnalyticsProperty s)
                 = PString (info_value (foreground (colorPalette host)))))
       \<and> (\<forall>dv dvs cl cat cats src dataValue vals.
            dataViews options = Some (dv # dvs) \<and> categorical dv = Some cl \<and>
            categories cl = Some (cat # cats) \<and> source cat = Some src \<and>
            categorical_values cl = Some (dataValue # vals) \<longrightarrow>
            (\<exists>vm s. visualTransform fmt host options = Inr vm \<and> settings vm = Some s))"
proof -
  have points: "\<forall>p \<in> set (dataPoints vm).
               strokeWidth p = 2
             \<and> dp_color p = PString (info_value (background (colorPalette host)))
             \<and> strokeColor p = PString (info_value (foreground (colorPalette host)))"
    if res: "visualTransform fmt host options = Inr vm" for vm
    using visualTransform_cases[OF res]
  proof
    assume "vm = \<lparr>dataPoints = [], dataMax = PNumber 0, settings = None\<rparr>"
    then show ?thesis by simp
  next
    assume "\<exists>dv dvs cl cat cats src dataValue vals.
            dataViews options = Some (dv # dvs) \<and> categorical dv = Some cl \<and>
            categories cl = Some (cat # cats) \<and> source cat = Some src \<and>
            categorical_values cl = Some (dataValue # vals)"
    then obtain dv dvs cl cat cats src dataValue vals where
      c: "dataViews options = Some (dv # dvs)" "categorical dv = Some cl"
         "categories cl = Some (cat # cats)" "source cat = Some src"
         "categorical_values cl = Some (dataValue # vals)"
      by blast
    note loop = visualTransform_Inr_columns(4)[OF c res]
    note nth = dataPoints_nth[OF loop]
    show ?thesis
    proof
      fix p assume "p \<in> set (dataPoints vm)"
      then obtain i where i: "i < length (dataPoints vm)" and p: "p = dataPoints vm ! i"
        by (auto simp: in_set_conv_nth)
      from i have i': "i < max (length (cat_values cat)) (length (val_values dataValue))"
        by (simp add: nth(1))
      from nth(4)[OF i'] hc have "dp_color p = PString (info_value (background (colorPalette host)))"
        by (simp add: p getColumnColorByIndex_highContrast)
      moreover from nth(5)[OF i'] hc
      have "strokeColor p = PString (info_value (foreground (colorPalette host)))"
        by (simp add: p getColumnStrokeColor_def)
      moreover from nth(6)[OF i'] hc have "strokeWidth p = 2"
        by (simp add: p getColumnStrokeWidth_def)
      ultimately show "strokeWidth p = 2
             \<and> dp_color p = PString (info_value (background (colorPalette host)))
             \<and> strokeColor p = PString (info_value (foreground (colorPalette host)))"
        by simp
    qed
  qed
  have colours: "ea_fill (enableAxis s) = PString (info_value (foreground (colorPalette host)))
             \<and> gv_helpLinkColor (generalView s) = PString (info_value (foreground (colorPalette host)))
             \<and> ta_helpLinkColor (testAnalyticsProperty s)
                 = PString (info_value (foreground (colorPalette host)))"
    if res: "visualTransform fmt host options = Inr vm" and s: "settings vm = Some s" for vm s
  proof -
    from visualTransform_cases[OF res] s obtain dv dvs cl cat cats src dataValue vals where
      c: "dataViews options = Some (dv # dvs)" "categorical dv = Some cl"
         "categories cl = Some (cat # cats)" "source cat = Some src"
         "categorical_values cl = Some (dataValue # vals)"
      by auto
    from visualTransform_Inr_columns(1)[OF c res] s
    have bs: "barChartSettings (objects (metadata dv)) (colorPalette host)
            (getColumnStrokeColor (colorPalette host)) = Inr s"
      by simp
    from barChartSettings_highContrast_fill[OF hc bs] barChartSettings_helpLinkColor[OF bs] hc
    show ?thesis by (simp add: getColumnStrokeColor_def)
  qed
  have total: "\<exists>vm s. visualTransform fmt host options = Inr vm \<and> settings vm = Some s"
    if "dataViews options = Some (dv # dvs) \<and> categorical dv = Some cl \<and>
            categories cl = Some (cat # cats) \<and> source cat = Some src \<and>
            categorical_values cl = Some (dataValue # vals)"
    for dv dvs cl cat cats src dataValue vals
  proof -
    from that have c: "dataViews options = Some (dv # dvs)" "categorical dv = Some cl"
         "categories cl = Some (cat # cats)" "source cat = Some src"
         "categorical_values cl = Some (dataValue # vals)"
      by simp_all
    from barChartSettings_highContrast[OF hc] obtain s where
      bs: "barChartSettings (objects (metadata dv)) (colorPalette host)
            (getColumnStrokeColor (colorPalette host)) = Inr s"
      by blast
    from hc have "\<forall>j. 0 \<le> j \<and> j < max (length (cat_values cat)) (length (val_values dataValue)) \<longrightarrow>
      (\<exists>c. getColumnColorByIndex fmt cat j (colorPalette host) = Inr c)"
      by (simp add: getColumnColorByIndex_highContrast)
    from dataPointsLoop_total[OF this] obtain pts where
      "dataPointsLoop fmt host cat dataValue (getColumnStrokeColor (colorPalette host))
                (getColumnStrokeWidth (isHighContrast (colorPalette host))) 0
                (max (length (cat_values cat)) (length (val_values dataValue))) [] = Inr pts"
      by blast
    with bs show ?thesis by (simp add: visualTransform_columns[OF c])
  qed
  from points colours total show ?thesis by blast
qed

theorem visualTransform_highContrast_witness:
  "isHighContrast (colorPalette (sample_host True))
   \<and> (\<exists>vm s. visualTransform sample_format (sample_host True) (sample_options (Some sample_objects)) = Inr vm
        \<and> settings vm = Some s
        \<and> length (dataPoints vm) = 3
        \<and> strokeWidth (dataPoints vm ! 1) = 2
        \<and> dp_color (dataPoints vm ! 1) = PString ''#000000''
        \<and> strokeColor (dataPoints vm ! 1) = PString ''#FFFFFF''
        \<and> ea_fill (enableAxis s) = PString ''#FFFFFF''
        \<and> gv_helpLinkColor (generalView s) = PString ''#FFFFFF'')"
proof -
  have hc: "isHighContrast (colorPalette (sample_host True))"
    by (simp add: sample_host_def sample_palette_def)
  note t = visualTransform_highContrast[OF hc, of sample_format "sample_options (Some sample_objects)"]
  from t sample_columns obtain vm s where
    vm: "visualTransform sample_format (sample_host True) (sample_options (Some sample_objects)) = Inr vm"
    and s: "settings vm = Some s"
    by blast
  from visualTransform_length[OF sample_columns vm]
  have len: "length (dataPoints vm) = 3"
    by (simp add: sample_category_def sample_values_def)
  then have "dataPoints vm ! 1 \<in> set (dataPoints vm)" by simp
  with t vm have "strokeWidth (dataPoints vm ! 1) = 2
      \<and> dp_color (dataPoints vm ! 1) = PString (info_value (background (colorPalette (sample_host True))))
      \<and> strokeColor (dataPoints vm ! 1) = PString (info_value (foreground (colorPalette (sample_host True))))"
    by blast
  moreover from t vm s have "ea_fill (enableAxis s) = PString (info_value (foreground (colorPalette (sample_host True))))
             \<and> gv_helpLinkColor (generalView s) = PString (info_value (foreground (colorPalette (sample_host True))))"
    by blast
  ultimately have "strokeWidth (dataPoints vm ! 1) = 2
        \<and> dp_color (dataPoints vm ! 1) = PString ''#000000''
        \<and> strokeColor (dataPoints vm ! 1) = PString ''#FFFFFF''
        \<and> ea_fill (enableAxis s) = PString ''#FFFFFF''
        \<and> gv_helpLinkColor (generalView s) = PString ''#FFFFFF''"
    by (simp add: sample_host_def sample_palette_def)
  with hc vm s len show ?thesis by blast
qed

section \<open>The maximum of the series\<close>

text \<open>
  C4 as stated, "\<open>dataMax\<close> is the largest value across the series of data-point values",
  fails on the sample update: the largest value of its points is 3, the \<open>dataMax\<close> of
  its view model is the host's aggregate 10.
\<close>

theorem dataMax_largest_value_counterexample:
  "(case visualTransform sample_format (sample_host False) (sample_options None) of
      Inl e \<Rightarrow> False
    | Inr vm \<Rightarrow>
        Some (dataMax vm) \<noteq> map_option PNumber (largest_value (dataPoints vm))
      \<and> largest_value (dataPoints vm) = Some 3
      \<and> dataMax vm = PNumber 10)"
  by (simp add: transform_defs sample_defs largest_value_def)

text \<open>
  C4, amended. When the first data view has a first category column with a source and
  a first value column, the \<open>dataMax\<close> of the view model that \<open>visualTransform\<close>
  returns is the \<open>maxLocal\<close> aggregate the host supplied with the first value column,
  taken as it is and not recomputed from the values.
\<close>

theorem visualTransform_dataMax:
  assumes "dataViews options = Some (dv # dvs)" and "categorical dv = Some cl"
    and "categories cl = Some (cat # cats)" and "source cat = Some src"
    and "categorical_values cl = Some (dataValue # vals)"
    and "visualTransform fmt host options = Inr vm"
  shows "dataMax vm = maxLocal dataValue"
  by (rule visualTransform_Inr_columns(3)[OF assms])

theorem visualTransform_dataMax_witness:
  "\<exists>vm. visualTransform sample_format (sample_host False) (sample_options None) = Inr vm
     \<and> dataMax vm = PNumber 10"
proof -
  obtain vm where vm: "visualTransform sample_format (sample_host False) (sample_options None) = Inr vm"
    by (simp add: transform_defs sample_defs)
  from visualTransform_dataMax[OF sample_columns vm] have "dataMax vm = PNumber 10"
    by (simp add: sample_values_def)
  with vm show ?thesis by blast
qed

section \<open>Degenerate input\<close>

lemma visualTransform_absent_input:
  "dataViews options = None \<or> dataViews options = Some []
   \<or> (\<exists>dv dvs. dataViews options = Some (dv # dvs) \<and>
        (categorical dv = None
         \<or> (\<exists>cl. categorical dv = Some cl \<and>
              (categories cl = None
               \<or> (\<exists>cat cats. categories cl = Some (cat # cats) \<and>
                     (source cat = None \<or> categorical_values cl = None)))))) \<Longrightarrow>
   visualTransform fmt host options = Inr \<lparr>dataPoints = [], dataMax = PNumber 0, settings = None\<rparr>"
  by (auto simp: visualTransform_def Let_def split: option.splits)

text \<open>
  C5 at an empty categories array. The guard reads \<open>categories[0].source\<close> without
  testing \<open>categories[0]\<close>: with \<^verbatim>\<open>categories: []\<close> in the first data view,
  whatever else the update holds, \<open>visualTransform\<close> raises a TypeError and returns no
  view model.
\<close>

theorem visualTransform_empty_categories:
  "visualTransform fmt host
     \<lparr>dataViews = Some (\<lparr>categorical = Some \<lparr>categories = Some [], categorical_values = vals\<rparr>,
                          metadata = md\<rparr> # dvs)\<rparr>
   = Inl TypeError"
  by (simp add: visualTransform_def)

section \<open>The colour of a bar\<close>

text \<open>
  C6. For every index \<open>i\<close> of a data point of the view model that \<open>visualTransform\<close>
  returns, the point's colour is: the palette's background colour in high-contrast mode;
  else, when the category column has a per-row \<open>colorSelector\<close> fill for row \<open>i\<close>,
  that fill's solid colour (the override is then a fill with a \<open>solid\<close> member: on any
  other the transform raises); else the colour the palette gives for the stringified
  category value of row \<open>i\<close>.
\<close>

theorem visualTransform_color:
  assumes "dataViews options = Some (dv # dvs)" and "categorical dv = Some cl"
    and "categories cl = Some (cat # cats)" and "source cat = Some src"
    and "categorical_values cl = Some (dataValue # vals)"
    and "visualTransform fmt host options = Inr vm"
    and "i < length (dataPoints vm)"
  shows "(isHighContrast (colorPalette host) \<longrightarrow>
            dp_color (dataPoints vm ! i) = PString (info_value (background (colorPalette host))))
       \<and> (\<not> isHighContrast (colorPalette host) \<longrightarrow>
            (\<forall>v. categorical_override cat i ''colorSelector'' ''fill'' = Some v \<longrightarrow>
               (\<exists>f sc. v = FillValue f \<and> solid f = Some sc \<and>
                       dp_color (dataPoints vm ! i) = color sc))
          \<and> (categorical_override cat i ''colorSelector'' ''fill'' = None \<longrightarrow>
               dp_color (dataPoints vm ! i) =
                 PString (info_value (getColor (colorPalette host)
                   (templateString fmt (prim_index (cat_values cat) i))))))"
proof -
  note loop = visualTransform_Inr_columns(4)[OF assms(1-6)]
  note nth = dataPoints_nth[OF loop]
  from assms(7) have i: "i < max (length (cat_values cat)) (length (val_values dataValue))"
    by (simp add: nth(1))
  note col = nth(4)[OF i]
  show ?thesis
    using col
    by (auto simp: getColumnColorByIndex_def getCategoricalObjectValue_def solid_color_def
             split: property_value.splits option.splits)
qed

theorem visualTransform_color_witness:
  "(\<exists>vm. visualTransform sample_format (sample_host False) (sample_options None) = Inr vm
     \<and> dp_color (dataPoints vm ! 0) = PString ''palette:apple''
     \<and> dp_color (dataPoints vm ! 1) = PString ''#FF0000'')
   \<and> (\<exists>vm. visualTransform sample_format (sample_host True) (sample_options None) = Inr vm
     \<and> dp_color (dataPoints vm ! 1) = PString ''#000000'')"
proof -
  obtain vm where vm: "visualTransform sample_format (sample_host False) (sample_options None) = Inr vm"
    by (simp add: transform_defs sample_defs)
  from visualTransform_length[OF sample_columns vm]
  have len: "length (dataPoints vm) = 3"
    by (simp add: sample_category_def sample_values_def)
  have o0: "categorical_override sample_category 0 ''colorSelector'' ''fill'' = None"
    by (simp add: categorical_override_def sample_category_def override_def)
  have o1: "categorical_override sample_category 1 ''colorSelector'' ''fill''
             = Some (FillValue \<lparr>solid = Some \<lparr>color = PString ''#FF0000''\<rparr>\<rparr>)"
    by (simp add: categorical_override_def sample_category_def override_def js_index_def)
  have nhc: "\<not> isHighContrast (colorPalette (sample_host False))"
    by (simp add: sample_host_def sample_palette_def)
  from len have "0 < length (dataPoints vm)" by simp
  from visualTransform_color[OF sample_columns vm this] nhc o0
  have c0: "dp_color (dataPoints vm ! 0) = PString ''palette:apple''"
    by (simp add: sample_host_def sample_palette_def sample_category_def sample_format_def
                  prim_index_def js_index_def)
  from len have "1 < length (dataPoints vm)" by simp
  from visualTransform_color[OF sample_columns vm this] nhc o1
  have c1: "dp_color (dataPoints vm ! 1) = PString ''#FF0000''"
    by auto
  obtain vm' where vm': "visualTransform sample_format (sample_host True) (sample_options None) = Inr vm'"
    by (simp add: transform_defs sample_defs)
  from visualTransform_length[OF sample_columns vm']
  have "1 < length (dataPoints vm')"
    by (simp add: sample_category_def sample_values_def)
  from visualTransform_color[OF sample_columns vm' this]
  have c2: "dp_color (dataPoints vm' ! 1) = PString ''#000000''"
    by (simp add: sample_host_def sample_palette_def)
  from vm c0 c1 vm' c2 show ?thesis by blast
qed

section \<open>Settings without an override\<close>

lemma getValue_no_override:
  "override objs objectName propertyName = None \<Longrightarrow>
   getValue objs objectName propertyName defaultValue = defaultValue"
  by (simp add: getValue_def)

lemma getAxisTextFillColor_no_override:
  "\<not> isHighContrast palette \<Longrightarrow> override objs ''enableAxis'' ''fill'' = None \<Longrightarrow>
   getAxisTextFillColor objs palette defaultColor = Inr defaultColor"
  by (simp add: getAxisTextFillColor_def getValue_no_override solid_color_def)

lemma barChartSettings_axisFill:
  "barChartSettings objs palette sc = Inr s \<Longrightarrow>
   getAxisTextFillColor objs palette (ea_fill (enableAxis defaultSettings))
     = Inr (ea_fill (enableAxis s))"
  by (auto simp: barChartSettings_def split: sum.splits)

lemma special_defaults:
  "ta_specialEnumeration (testAnalyticsProperty defaultSettings) = Prim (PNumber 0)"
  "card_specialEnumeration (CardWithManyPropertiesAnalytics defaultSettings) = Prim (PNumber 0)"
  "card_specialEnumeration (CardWithManyPropertiesFormatting defaultSettings) = Prim (PNumber 0)"
  by (simp_all add: defaultSettings_def)

lemma barChartSettings_enableAxis:
  assumes "barChartSettings objs palette sc = Inr s"
  shows "ea_show (enableAxis s) = getValue objs ''enableAxis'' ''show''
       (ea_show (enableAxis defaultSettings))"
  using assms by (auto simp: barChartSettings_def split: sum.splits)

lemma enableAxis_defaults:
  assumes "barChartSettings objs palette sc = Inr s"
  shows "(override objs ''enableAxis'' ''show'' = None \<longrightarrow>
         ea_show (enableAxis s) = ea_show (enableAxis defaultSettings))"
  by (simp add: barChartSettings_enableAxis[OF assms] getValue_no_override special_defaults)

lemma barChartSettings_generalView:
  assumes "barChartSettings objs palette sc = Inr s"
  shows "gv_opacity (generalView s) = getValue objs ''generalView'' ''opacity''
       (gv_opacity (generalView defaultSettings))"
    and "gv_showBugBashData (generalView s) = getValue objs ''generalView'' ''showBugBashData''
       (gv_showBugBashData (generalView defaultSettings))"
    and "gv_showHelpLink (generalView s) = getValue objs ''generalView'' ''showHelpLink''
       (gv_showHelpLink (generalView defaultSettings))"
    and "gv_specialEnumeration (generalView s) = getValue objs ''generalView'' ''specialEnumeration''
       (gv_specialEnumeration (generalView defaultSettings))"
  using assms by (auto simp: barChartSettings_def split: sum.splits)

lemma generalView_defaults:
  assumes "barChartSettings objs palette sc = Inr s"
  shows "(override objs ''generalView'' ''opacity'' = None \<longrightarrow>
         gv_opacity (generalView s) = gv_opacity (generalView defaultSettings))
     \<and> (override objs ''generalView'' ''showBugBashData'' = None \<longrightarrow>
         gv_showBugBashData (generalView s) = gv_showBugBashData (generalView defaultSettings))
     \<and> (override objs ''generalView'' ''showHelpLink'' = None \<longrightarrow>
         gv_showHelpLink (generalView s) = gv_showHelpLink (generalView defaultSettings))
     \<and> (override objs ''generalView'' ''specialEnumeration'' = None \<longrightarrow>
         gv_specialEnumeration (generalView s) = gv_specialEnumeration (generalView defaultSettings))"
  by (simp add: barChartSettings_generalView[OF assms] getValue_no_override special_defaults)

lemma barChartSettings_testAnalyticsProperty:
  assumes "barChartSettings objs palette sc = Inr s"
  shows "ta_show (testAnalyticsProperty s) = getValue objs ''testAnalyticsProperty'' ''show''
       (ta_show (testAnalyticsProperty defaultSettings))"
    and "ta_displayName (testAnalyticsProperty s) = getValue objs ''testAnalyticsProperty'' ''displayName''
       (ta_displayName (testAnalyticsProperty defaultSettings))"
    and "ta_opacity (testAnalyticsProperty s) = getValue objs ''testAnalyticsProperty'' ''opacity''
       (ta_opacity (testAnalyticsProperty defaultSettings))"
    and "ta_showHelpLink (testAnalyticsProperty s) = getValue objs ''testAnalyticsProperty'' ''showHelpLink''
       (ta_showHelpLink (testAnalyticsProperty defaultSettings))"
    and "ta_specialEnumeration (testAnalyticsProperty s) = getValue objs ''testAnalyticsProperty'' ''specialEnumeration''
       (ta_specialEnumeration (testAnalyticsProperty defaultSettings))"
  using assms by (auto simp: barChartSettings_def split: sum.splits)

lemma testAnalyticsProperty_defaults:
  assumes "barChartSettings objs palette sc = Inr s"
  shows "(override objs ''testAnalyticsProperty'' ''show'' = None \<longrightarrow>
         ta_show (testAnalyticsProperty s) = ta_show (testAnalyticsProperty defaultSettings))
     \<and> (override objs ''testAnalyticsProperty'' ''displayName'' = None \<longrightarrow>
         ta_displayName (testAnalyticsProperty s) = ta_displayName (testAnalyticsProperty defaultSettings))
     \<and> (override objs ''testAnalyticsProperty'' ''opacity'' = None \<longrightarrow>
         ta_opacity (testAnalyticsProperty s) = ta_opacity (testAnalyticsProperty defaultSettings))
     \<and> (override objs ''testAnalyticsProperty'' ''showHelpLink'' = None \<longrightarrow>
         ta_showHelpLink (testAnalyticsProperty s) = ta_showHelpLink (testAnalyticsProperty defaultSettings))
     \<and> (override objs ''testAnalyticsProperty'' ''specialEnumeration'' = None \<longrightarrow>
         ta_specialEnumeration (testAnalyticsProperty s) = ta_specialEnumeration (testAnalyticsProperty defaultSettings))"
  by (simp add: barChartSettings_testAnalyticsProperty[OF assms] getValue_no_override special_defaults)

lemma barChartSettings_cardAnalytics:
  assumes "barChartSettings objs palette sc = Inr s"
  shows "card_show (CardWithManyPropertiesAnalytics s) = getValue objs ''CardWithManyPropertiesAnalytics'' ''show''
       (card_show (CardWithManyPropertiesAnalytics defaultSettings))"
    and "card_displayName (CardWithManyPropertiesAnalytics s) = getValue objs ''CardWithManyPropertiesAnalytics'' ''displayName''
       (card_displayName (CardWithManyPropertiesAnalytics defaultSettings))"
    and "card_unboundIntegerProperty (CardWithManyPropertiesAnalytics s) = getValue objs ''CardWithManyPropertiesAnalytics'' ''unboundIntegerProperty''
       (card_unboundIntegerProperty (CardWithManyPropertiesAnalytics defaultSettings))"
    and "card_boundIntegerProperty (CardWithManyPropertiesAnalytics s) = getValue objs ''CardWithManyPropertiesAnalytics'' ''boundIntegerProperty''
       (card_boundIntegerProperty (CardWithManyPropertiesAnalytics defaultSettings))"
    and "card_unboundNumericProperty (CardWithManyPropertiesAnalytics s) = getValue objs ''CardWithManyPropertiesAnalytics'' ''unboundNumericProperty''
       (card_unboundNumericProperty (CardWithManyPropertiesAnalytics defaultSettings))"
    and "card_boundNumericProperty (CardWithManyPropertiesAnalytics s) = getValue objs ''CardWithManyPropertiesAnalytics'' ''boundNumericProperty''
       (card_boundNumericProperty (CardWithManyPropertiesAnalytics defaultSettings))"
    and "card_booleanProperty (CardWithManyPropertiesAnalytics s) = getValue objs ''CardWithManyPropertiesAnalytics'' ''booleanProperty''
       (card_booleanProperty (CardWithManyPropertiesAnalytics defaultSettings))"
    and "card_textProperty (CardWithManyPropertiesAnalytics s) = getValue objs ''CardWithManyPropertiesAnalytics'' ''textProperty''
       (card_textProperty (CardWithManyPropertiesAnalytics defaultSettings))"
    and "card_specialEnumeration (CardWithManyPropertiesAnalytics s) = getValue objs ''CardWithManyPropertiesAnalytics'' ''specialEnumeration''
       (ta_specialEnumeration (testAnalyticsProperty defaultSettings))"
    and "card_colorProperty (CardWithManyPropertiesAnalytics s) = getValue objs ''CardWithManyPropertiesAnalytics'' ''colorProperty''
       (card_colorProperty (CardWithManyPropertiesAnalytics defaultSettings))"
    and "card_nullableColorProperty (CardWithManyPropertiesAnalytics s) = getValue objs ''CardWithManyPropertiesAnalytics'' ''nullableColorProperty''
       (card_nullableColorProperty (CardWithManyPropertiesAnalytics defaultSettings))"
    and "card_formattingLableDisplayUnitsProperty (CardWithManyPropertiesAnalytics s) = getValue objs ''CardWithManyPropertiesAnalytics'' ''formattingLableDisplayUnitsProperty''
       (card_formattingLableDisplayUnitsProperty (CardWithManyPropertiesAnalytics defaultSettings))"
    and "card_formattingAlignmentProperty (CardWithManyPropertiesAnalytics s) = getValue objs ''CardWithManyPropertiesAnalytics'' ''formattingAlignmentProperty''
       (card_formattingAlignmentProperty (CardWithManyPropertiesAnalytics defaultSettings))"
    and "card_formattingFontSizeProperty (CardWithManyPropertiesAnalytics s) = getValue objs ''CardWithManyPropertiesAnalytics'' ''formattingFontSizeProperty''
       (card_formattingFontSizeProperty (CardWithManyPropertiesAnalytics defaultSettings))"
  using assms by (auto simp: barChartSettings_def split: sum.splits)

lemma cardAnalytics_defaults:
  assumes "barChartSettings objs palette sc = Inr s"
  shows "(override objs ''CardWithManyPropertiesAnalytics'' ''show'' = None \<longrightarrow>
         card_show (CardWithManyPropertiesAnalytics s) = card_show (CardWithManyPropertiesAnalytics defaultSettings))
     \<and> (override objs ''CardWithManyPropertiesAnalytics'' ''displayName'' = None \<longrightarrow>
         card_displayName (CardWithManyPropertiesAnalytics s) = card_displayName (CardWithManyPropertiesAnalytics defaultSettings))
     \<and> (override objs ''CardWithManyPropertiesAnalytics'' ''unboundIntegerProperty'' = None \<longrightarrow>
         card_unboundIntegerProperty (CardWithManyPropertiesAnalytics s) = card_unboundIntegerProperty (CardWithManyPropertiesAnalytics defaultSettings))
     \<and> (override objs ''CardWithManyPropertiesAnalytics'' ''boundIntegerProperty'' = None \<longrightarrow>
         card_boundIntegerProperty (CardWithManyPropertiesAnalytics s) = card_boundIntegerProperty (CardWithManyPropertiesAnalytics defaultSettings))
     \<and> (override objs ''CardWithManyPropertiesAnalytics'' ''unboundNumericProperty'' = None \<longrightarrow>
         card_unboundNumericProperty (CardWithManyPropertiesAnalytics s) = card_unboundNumericProperty (CardWithManyPropertiesAnalytics defaultSettings))
     \<and> (override objs ''CardWithManyPropertiesAnalytics'' ''boundNumericProperty'' = None \<longrightarrow>
         card_boundNumericProperty (CardWithManyPropertiesAnalytics s) = card_boundNumericProperty (CardWithManyPropertiesAnalytics defaultSettings))
     \<and> (override objs ''CardWithManyPropertiesAnalytics'' ''booleanProperty'' = None \<longrightarrow>
         card_booleanProperty (CardWithManyPropertiesAnalytics s) = card_booleanProperty (CardWithManyPropertiesAnalytics defaultSettings))
     \<and> (override objs ''CardWithManyPropertiesAnalytics'' ''textProperty'' = None \<longrightarrow>
         card_textProperty (CardWithManyPropertiesAnalytics s) = card_textProperty (CardWithManyPropertiesAnalytics defaultSettings))
     \<and> (override objs ''CardWithManyPropertiesAnalytics'' ''specialEnumeration'' = None \<longrightarrow>
         card_specialEnumeration (CardWithManyPropertiesAnalytics s) = card_specialEnumeration (CardWithManyPropertiesAnalytics defaultSettings))
     \<and> (override objs ''CardWithManyPropertiesAnalytics'' ''colorProperty'' = None \<longrightarrow>
         card_colorProperty (CardWithManyPropertiesAnalytics s) = card_colorProperty (CardWithManyPropertiesAnalytics defaultSettings))
     \<and> (override objs ''CardWithManyPropertiesAnalytics'' ''nullableColorProperty'' = None \<longrightarrow>
         card_nullableColorProperty (CardWithManyPropertiesAnalytics s) = card_nullableColorProperty (CardWithManyPropertiesAnalytics defaultSettings))
     \<and> (override objs ''CardWithManyPropertiesAnalytics'' ''formattingLableDisplayUnitsProperty'' = None \<longrightarrow>
         card_formattingLableDisplayUnitsProperty (CardWithManyPropertiesAnalytics s) = card_formattingLableDisplayUnitsProperty (CardWithManyPropertiesAnalytics defaultSettings))
     \<and> (override objs ''CardWithManyPropertiesAnalytics'' ''formattingAlignmentProperty'' = None \<longrightarrow>
         card_formattingAlignmentProperty (CardWithManyPropertiesAnalytics s) = card_formattingAlignmentProperty (CardWithManyPropertiesAnalytics defaultSettings))
     \<and> (override objs ''CardWithManyPropertiesAnalytics'' ''formattingFontSizeProperty'' = None \<longrightarrow>
         card_formattingFontSizeProperty (CardWithManyPropertiesAnalytics s) = card_formattingFontSizeProperty (CardWithManyPropertiesAnalytics defaultSettings))"
  by (simp add: barChartSettings_cardAnalytics[OF assms] getValue_no_override special_defaults)

lemma barChartSettings_cardFormatting:
  assumes "barChartSettings objs palette sc = Inr s"
  shows "card_show (CardWithManyPropertiesFormatting s) = getValue objs ''CardWithManyPropertiesFormatting'' ''show''
       (card_show (CardWithManyPropertiesFormatting defaultSettings))"
    and "card_displayName (CardWithManyPropertiesFormatting s) = getValue objs ''CardWithManyPropertiesFormatting'' ''displayName''
       (card_displayName (CardWithManyPropertiesFormatting defaultSettings))"
    and "card_unboundIntegerProperty (CardWithManyPropertiesFormatting s) = getValue objs ''CardWithManyPropertiesFormatting'' ''unboundIntegerProperty''
       (card_unboundIntegerProperty (CardWithManyPropertiesFormatting defaultSettings))"
    and "card_boundIntegerProperty (CardWithManyPropertiesFormatting s) = getValue objs ''CardWithManyPropertiesFormatting'' ''boundIntegerProperty''
       (card_boundIntegerProperty (CardWithManyPropertiesFormatting defaultSettings))"
    and "card_unboundNumericProperty (CardWithManyPropertiesFormatting s) = getValue objs ''CardWithManyPropertiesFormatting'' ''unboundNumericProperty''
       (card_unboundNumericProperty (CardWithManyPropertiesFormatting defaultSettings))"
    and "card_boundNumericProperty (CardWithManyPropertiesFormatting s) = getValue objs ''CardWithManyPropertiesFormatting'' ''boundNumericProperty''
       (card_boundNumericProperty (CardWithManyPropertiesFormatting defaultSettings))"
    and "card_booleanProperty (CardWithManyPropertiesFormatting s) = getValue objs ''CardWithManyPropertiesFormatting'' ''booleanProperty''
       (card_booleanProperty (CardWithManyPropertiesFormatting defaultSettings))"
    and "card_textProperty (CardWithManyPropertiesFormatting s) = getValue objs ''CardWithManyPropertiesFormatting'' ''textProperty''
       (card_textProperty (CardWithManyPropertiesFormatting defaultSettings))"
    and "card_specialEnumeration (CardWithManyPropertiesFormatting s) = getValue objs ''CardWithManyPropertiesFormatting'' ''specialEnumeration''
       (ta_specialEnumeration (testAnalyticsProperty defaultSettings))"
    and "card_colorProperty (CardWithManyPropertiesFormatting s) = getValue objs ''CardWithManyPropertiesFormatting'' ''colorProperty''
       (card_colorProperty (CardWithManyPropertiesFormatting defaultSettings))"
    and "card_nullableColorProperty (CardWithManyPropertiesFormatting s) = getValue objs ''CardWithManyPropertiesFormatting'' ''nullableColorProperty''
       (card_nullableColorProperty (CardWithManyPropertiesFormatting defaultSettings))"
    and "card_formattingLableDisplayUnitsProperty (CardWithManyPropertiesFormatting s) = getValue objs ''CardWithManyPropertiesFormatting'' ''formattingLableDisplayUnitsProperty''
       (card_formattingLableDisplayUnitsProperty (CardWithManyPropertiesFormatting defaultSettings))"
    and "card_formattingAlignmentProperty (CardWithManyPropertiesFormatting s) = getValue objs ''CardWithManyPropertiesFormatting'' ''formattingAlignmentProperty''
       (card_formattingAlignmentProperty (CardWithManyPropertiesFormatting defaultSettings))"
    and "card_formattingFontSizeProperty (CardWithManyPropertiesFormatting s) = getValue objs ''CardWithManyPropertiesFormatting'' ''formattingFontSizeProperty''
       (card_formattingFontSizeProperty (CardWithManyPropertiesFormatting defaultSettings))"
  using assms by (auto simp: barChartSettings_def split: sum.splits)

lemma cardFormatting_defaults:
  assumes "barChartSettings objs palette sc = Inr s"
  shows "(override objs ''CardWithManyPropertiesFormatting'' ''show'' = None \<longrightarrow>
         card_show (CardWithManyPropertiesFormatting s) = card_show (CardWithManyPropertiesFormatting defaultSettings))
     \<and> (override objs ''CardWithManyPropertiesFormatting'' ''displayName'' = None \<longrightarrow>
         card_displayName (CardWithManyPropertiesFormatting s) = card_displayName (CardWithManyPropertiesFormatting defaultSettings))
     \<and> (override objs ''CardWithManyPropertiesFormatting'' ''unboundIntegerProperty'' = None \<longrightarrow>
         card_unboundIntegerProperty (CardWithManyPropertiesFormatting s) = card_unboundIntegerProperty (CardWithManyPropertiesFormatting defaultSettings))
     \<and> (override objs ''CardWithManyPropertiesFormatting'' ''boundIntegerProperty'' = None \<longrightarrow>
         card_boundIntegerProperty (CardWithManyPropertiesFormatting s) = card_boundIntegerProperty (CardWithManyPropertiesFormatting defaultSettings))
     \<and> (override objs ''CardWithManyPropertiesFormatting'' ''unboundNumericProperty'' = None \<longrightarrow>
         card_unboundNumericProperty (CardWithManyPropertiesFormatting s) = card_unboundNumericProperty (CardWithManyPropertiesFormatting defaultSettings))
     \<and> (override objs ''CardWithManyPropertiesFormatting'' ''boundNumericProperty'' = None \<longrightarrow>
         card_boundNumericProperty (CardWithManyPropertiesFormatting s) = card_boundNumericProperty (CardWithManyPropertiesFormatting defaultSettings))
     \<and> (override objs ''CardWithManyPropertiesFormatting'' ''booleanProperty'' = None \<longrightarrow>
         card_booleanProperty (CardWithManyPropertiesFormatting s) = card_booleanProperty (CardWithManyPropertiesFormatting defaultSettings))
     \<and> (override objs ''CardWithManyPropertiesFormatting'' ''textProperty'' = None \<longrightarrow>
         card_textProperty (CardWithManyPropertiesFormatting s) = card_textProperty (CardWithManyPropertiesFormatting defaultSettings))
     \<and> (override objs ''CardWithManyPropertiesFormatting'' ''specialEnumeration'' = None \<longrightarrow>
         card_specialEnumeration (CardWithManyPropertiesFormatting s) = card_specialEnumeration (CardWithManyPropertiesFormatting defaultSettings))
     \<and> (override objs ''CardWithManyPropertiesFormatting'' ''colorProperty'' = None \<longrightarrow>
         card_colorProperty (CardWithManyPropertiesFormatting s) = card_colorProperty (CardWithManyPropertiesFormatting defaultSettings))
     \<and> (override objs ''CardWithManyPropertiesFormatting'' ''nullableColorProperty'' = None \<longrightarrow>
         card_nullableColorProperty (CardWithManyPropertiesFormatting s) = card_nullableColorProperty (CardWithManyPropertiesFormatting defaultSettings))
     \<and> (override objs ''CardWithManyPropertiesFormatting'' ''formattingLableDisplayUnitsProperty'' = None \<longrightarrow>
         card_formattingLableDisplayUnitsProperty (CardWithManyPropertiesFormatting s) = card_formattingLableDisplayUnitsProperty (CardWithManyPropertiesFormatting defaultSettings))
     \<and> (override objs ''CardWithManyPropertiesFormatting'' ''formattingAlignmentProperty'' = None \<longrightarrow>
         card_formattingAlignmentProperty (CardWithManyPropertiesFormatting s) = card_formattingAlignmentProperty (CardWithManyPropertiesFormatting defaultSettings))
     \<and> (override objs ''CardWithManyPropertiesFormatting'' ''formattingFontSizeProperty'' = None \<longrightarrow>
         card_formattingFontSizeProperty (CardWithManyPropertiesFormatting s) = card_formattingFontSizeProperty (CardWithManyPropertiesFormatting defaultSettings))"
  by (simp add: barChartSettings_cardFormatting[OF assms] getValue_no_override special_defaults)

text \<open>
  C3 as stated fails at the help-link colour: on the sample update, with no objects map
  at all and high-contrast mode off, \<open>generalView.helpLinkColor\<close> resolves to
  \<open>null\<close>, not to its compiled-in default \<open>#80B0E0\<close>.
\<close>

theorem helpLinkColor_default_counterexample:
  "(case visualTransform sample_format (sample_host False) (sample_options None) of
      Inl e \<Rightarrow> False
    | Inr vm \<Rightarrow>
        (case settings vm of
           None \<Rightarrow> False
         | Some s \<Rightarrow>
             gv_helpLinkColor (generalView s) \<noteq> gv_helpLinkColor (generalView defaultSettings)
           \<and> gv_helpLinkColor (generalView s) = PNull
           \<and> gv_helpLinkColor (generalView defaultSettings) = PString ''#80B0E0''))"
  by (simp add: transform_defs sample_defs)

text \<open>
  C3, amended. In the settings that \<open>visualTransform\<close> resolves, every field other than
  the two \<open>helpLinkColor\<close> fields equals its compiled-in default whenever the objects
  map holds no override for it (for the axis fill: with high-contrast mode off). The
  \<open>helpLinkColor\<close> of \<open>generalView\<close> and of \<open>testAnalyticsProperty\<close> is not read
  from the objects map or from the defaults: with high-contrast mode off it is
  \<open>null\<close>.
\<close>

theorem visualTransform_settings_defaults:
  assumes "dataViews options = Some (dv # dvs)" and "categorical dv = Some cl"
    and "categories cl = Some (cat # cats)" and "source cat = Some src"
    and "categorical_values cl = Some (dataValue # vals)"
    and "visualTransform fmt host options = Inr vm"
    and "settings vm = Some s"
  shows "((override (objects (metadata dv)) ''enableAxis'' ''show'' = None \<longrightarrow>
            ea_show (enableAxis s) = ea_show (enableAxis defaultSettings)))
     \<and> ((override (objects (metadata dv)) ''generalView'' ''opacity'' = None \<longrightarrow>
            gv_opacity (generalView s) = gv_opacity (generalView defaultSettings))
        \<and> (override (objects (metadata dv)) ''generalView'' ''showBugBashData'' = None \<longrightarrow>
            gv_showBugBashData (generalView s) = gv_showBugBashData (generalView defaultSettings))
        \<and> (override (objects (metadata dv)) ''generalView'' ''showHelpLink'' = None \<longrightarrow>
            gv_showHelpLink (generalView s) = gv_showHelpLink (generalView defaultSettings))
        \<and> (override (objects (metadata dv)) ''generalView'' ''specialEnumeration'' = None \<longrightarrow>
            gv_specialEnumeration (generalView s) = gv_specialEnumeration (generalView defaultSettings)))
     \<and> ((override (objects (metadata dv)) ''testAnalyticsProperty'' ''show'' = None \<longrightarrow>
            ta_show (testAnalyticsProperty s) = ta_show (testAnalyticsProperty defaultSettings))
        \<and> (override (objects (metadata dv)) ''testAnalyticsProperty'' ''displayName'' = None \<longrightarrow>
            ta_displayName (testAnalyticsProperty s) = ta_displayName (testAnalyticsProperty defaultSettings))
        \<and> (override (objects (metadata dv)) ''testAnalyticsProperty'' ''opacity'' = None \<longrightarrow>
            ta_opacity (testAnalyticsProperty s) = ta_opacity (testAnalyticsProperty defaultSettings))
        \<and> (override (objects (metadata dv)) ''testAnalyticsProperty'' ''showHelpLink'' = None \<longrightarrow>
            ta_showHelpLink (testAnalyticsProperty s) = ta_showHelpLink (testAnalyticsProperty defaultSettings))
        \<and> (override (objects (metadata dv)) ''testAnalyticsProperty'' ''specialEnumeration'' = None \<longrightarrow>
            ta_specialEnumeration (testAnalyticsProperty s) = ta_specialEnumeration (testAnalyticsProperty defaultSettings)))
     \<and> ((override (objects (metadata dv)) ''CardWithManyPropertiesAnalytics'' ''show'' = None \<longrightarrow>
            card_show (CardWithManyPropertiesAnalytics s) = card_show (CardWithManyPropertiesAnalytics defaultSettings))
        \<and> (override (objects (metadata dv)) ''CardWithManyPropertiesAnalytics'' ''displayName'' = None \<longrightarrow>
            card_displayName (CardWithManyPropertiesAnalytics s) = card_displayName (CardWithManyPropertiesAnalytics defaultSettings))
        \<and> (override (objects (metadata dv)) ''CardWithManyPropertiesAnalytics'' ''unboundIntegerProperty'' = None \<longrightarrow>
            card_unboundIntegerProperty (CardWithManyPropertiesAnalytics s) = card_unboundIntegerProperty (CardWithManyPropertiesAnalytics defaultSettings))
        \<and> (override (objects (metadata dv)) ''CardWithManyPropertiesAnalytics'' ''boundIntegerProperty'' = None \<longrightarrow>
            card_boundIntegerProperty (CardWithManyPropertiesAnalytics s) = card_boundIntegerProperty (CardWithManyPropertiesAnalytics defaultSettings))
        \<and> (override (objects (metadata dv)) ''CardWithManyPropertiesAnalytics'' ''unboundNumericProperty'' = None \<longrightarrow>
            card_unboundNumericProperty (CardWithManyPropertiesAnalytics s) = card_unboundNumericProperty (CardWithManyPropertiesAnalytics defaultSettings))
        \<and> (override (objects (metadata dv)) ''CardWithManyPropertiesAnalytics'' ''boundNumericProperty'' = None \<longrightarrow>
            card_boundNumericProperty (CardWithManyPropertiesAnalytics s) = card_boundNumericProperty (CardWithManyPropertiesAnalytics defaultSettings))
        \<and> (override (objects (metadata dv)) ''CardWithManyPropertiesAnalytics'' ''booleanProperty'' = None \<longrightarrow>
            card_booleanProperty (CardWithManyPropertiesAnalytics s) = card_booleanProperty (CardWithManyPropertiesAnalytics defaultSettings))
        \<and> (override (objects (metadata dv)) ''CardWithManyPropertiesAnalytics'' ''textProperty'' = None \<longrightarrow>
            card_textProperty (CardWithManyPropertiesAnalytics s) = card_textProperty (CardWithManyPropertiesAnalytics defaultSettings))
        \<and> (override (objects (metadata dv)) ''CardWithManyPropertiesAnalytics'' ''specialEnumeration'' = None \<longrightarrow>
            card_specialEnumeration (CardWithManyPropertiesAnalytics s) = card_specialEnumeration (CardWithManyPropertiesAnalytics defaultSettings))
        \<and> (override (objects (metadata dv)) ''CardWithManyPropertiesAnalytics'' ''colorProperty'' = None \<longrightarrow>
            card_colorProperty (CardWithManyPropertiesAnalytics s) = card_colorProperty (CardWithManyPropertiesAnalytics defaultSettings))
        \<and> (override (objects (metadata dv)) ''CardWithManyPropertiesAnalytics'' ''nullableColorProperty'' = None \<longrightarrow>
            card_nullableColorProperty (CardWithManyPropertiesAnalytics s) = card_nullableColorProperty (CardWithManyPropertiesAnalytics defaultSettings))
        \<and> (override (objects (metadata dv)) ''CardWithManyPropertiesAnalytics'' ''formattingLableDisplayUnitsProperty'' = None \<longrightarrow>
            card_formattingLableDisplayUnitsProperty (CardWithManyPropertiesAnalytics s) = card_formattingLableDisplayUnitsProperty (CardWithManyPropertiesAnalytics defaultSettings))
        \<and> (override (objects (metadata dv)) ''CardWithManyPropertiesAnalytics'' ''formattingAlignmentProperty'' = None \<longrightarrow>
            card_formattingAlignmentProperty (CardWithManyPropertiesAnalytics s) = card_formattingAlignmentProperty (CardWithManyPropertiesAnalytics defaultSettings))
        \<and> (override (objects (metadata dv)) ''CardWithManyPropertiesAnalytics'' ''formattingFontSizeProperty'' = None \<longrightarrow>
            card_formattingFontSizeProperty (CardWithManyPropertiesAnalytics s) = card_formattingFontSizeProperty (CardWithManyPropertiesAnalytics defaultSettings)))
     \<and> ((override (objects (metadata dv)) ''CardWithManyPropertiesFormatting'' ''show'' = None \<longrightarrow>
            card_show (CardWithManyPropertiesFormatting s) = card_show (CardWithManyPropertiesFormatting defaultSettings))
        \<and> (override (objects (metadata dv)) ''CardWithManyPropertiesFormatting'' ''displayName'' = None \<longrightarrow>
            card_displayName (CardWithManyPropertiesFormatting s) = card_displayName (CardWithManyPropertiesFormatting defaultSettings))
        \<and> (override (objects (metadata dv)) ''CardWithManyPropertiesFormatting'' ''unboundIntegerProperty'' = None \<longrightarrow>
            card_unboundIntegerProperty (CardWithManyPropertiesFormatting s) = card_unboundIntegerProperty (CardWithManyPropertiesFormatting defaultSettings))
        \<and> (override (objects (metadata dv)) ''CardWithManyPropertiesFormatting'' ''boundIntegerProperty'' = None \<longrightarrow>
            card_boundIntegerProperty (CardWithManyPropertiesFormatting s) = card_boundIntegerProperty (CardWithManyPropertiesFormatting defaultSettings))
        \<and> (override (objects (metadata dv)) ''CardWithManyPropertiesFormatting'' ''unboundNumericProperty'' = None \<longrightarrow>
            card_unboundNumericProperty (CardWithManyPropertiesFormatting s) = card_unboundNumericProperty (CardWithManyPropertiesFormatting defaultSettings))
        \<and> (override (objects (metadata dv)) ''CardWithManyPropertiesFormatting'' ''boundNumericProperty'' = None \<longrightarrow>
            card_boundNumericProperty (CardWithManyPropertiesFormatting s) = card_boundNumericProperty (CardWithManyPropertiesFormatting defaultSettings))
        \<and> (override (objects (metadata dv)) ''CardWithManyPropertiesFormatting'' ''booleanProperty'' = None \<longrightarrow>
            card_booleanProperty (CardWithManyPropertiesFormatting s) = card_booleanProperty (CardWithManyPropertiesFormatting defaultSettings))
        \<and> (override (objects (metadata dv)) ''CardWithManyPropertiesFormatting'' ''textProperty'' = None \<longrightarrow>
            card_textProperty (CardWithManyPropertiesFormatting s) = card_textProperty (CardWithManyPropertiesFormatting defaultSettings))
        \<and> (override (objects (metadata dv)) ''CardWithManyPropertiesFormatting'' ''specialEnumeration'' = None \<longrightarrow>
            card_specialEnumeration (CardWithManyPropertiesFormatting s) = card_specialEnumeration (CardWithManyPropertiesFormatting defaultSettings))
        \<and> (override (objects (metadata dv)) ''CardWithManyPropertiesFormatting'' ''colorProperty'' = None \<longrightarrow>
            card_colorProperty (CardWithManyPropertiesFormatting s) = card_colorProperty (CardWithManyPropertiesFormatting defaultSettings))
        \<and> (override (objects (metadata dv)) ''CardWithManyPropertiesFormatting'' ''nullableColorProperty'' = None \<longrightarrow>
            card_nullableColorProperty (CardWithManyPropertiesFormatting s) = card_nullableColorProperty (CardWithManyPropertiesFormatting defaultSettings))
        \<and> (override (objects (metadata dv)) ''CardWithManyPropertiesFormatting'' ''formattingLableDisplayUnitsProperty'' = None \<longrightarrow>
            card_formattingLableDisplayUnitsProperty (CardWithManyPropertiesFormatting s) = card_formattingLableDisplayUnitsProperty (CardWithManyPropertiesFormatting defaultSettings))
        \<and> (override (objects (metadata dv)) ''CardWithManyPropertiesFormatting'' ''formattingAlignmentProperty'' = None \<longrightarrow>
            card_formattingAlignmentProperty (CardWithManyPropertiesFormatting s) = card_formattingAlignmentProperty (CardWithManyPropertiesFormatting defaultSettings))
        \<and> (override (objects (metadata dv)) ''CardWithManyPropertiesFormatting'' ''formattingFontSizeProperty'' = None \<longrightarrow>
            card_formattingFontSizeProperty (CardWithManyPropertiesFormatting s) = card_formattingFontSizeProperty (CardWithManyPropertiesFormatting defaultSettings)))
     \<and> (\<not> isHighContrast (colorPalette host) \<and>
        override (objects (metadata dv)) ''enableAxis'' ''fill'' = None \<longrightarrow>
          ea_fill (enableAxis s) = ea_fill (enableAxis defaultSettings))
     \<and> (\<not> isHighContrast (colorPalette host) \<longrightarrow>
          gv_helpLinkColor (generalView s) = PNull
        \<and> ta_helpLinkColor (testAnalyticsProperty s) = PNull)"
proof -
  from visualTransform_Inr_columns(1)[OF assms(1-6)] assms(7)
  have bs: "barChartSettings (objects (metadata dv)) (colorPalette host)
            (getColumnStrokeColor (colorPalette host)) = Inr s"
    by simp
  have fill: "\<not> isHighContrast (colorPalette host) \<and>
        override (objects (metadata dv)) ''enableAxis'' ''fill'' = None \<longrightarrow>
          ea_fill (enableAxis s) = ea_fill (enableAxis defaultSettings)"
    using barChartSettings_axisFill[OF bs]
    by (auto simp: getAxisTextFillColor_no_override)
  have link: "\<not> isHighContrast (colorPalette host) \<longrightarrow>
          gv_helpLinkColor (generalView s) = PNull
        \<and> ta_helpLinkColor (testAnalyticsProperty s) = PNull"
    using barChartSettings_helpLinkColor[OF bs] by (simp add: getColumnStrokeColor_def)
  show ?thesis
    by (intro conjI enableAxis_defaults[OF bs] generalView_defaults[OF bs]
          testAnalyticsProperty_defaults[OF bs] cardAnalytics_defaults[OF bs]
          cardFormatting_defaults[OF bs] fill link)
qed

theorem visualTransform_settings_defaults_witness:
  "\<exists>vm s. visualTransform sample_format (sample_host False) (sample_options (Some sample_objects)) = Inr vm
     \<and> settings vm = Some s
     \<and> override (Some sample_objects) ''generalView'' ''showHelpLink'' = None
     \<and> gv_showHelpLink (generalView s) = Prim (PBool False)
     \<and> override (Some sample_objects) ''CardWithManyPropertiesFormatting'' ''textProperty'' = None
     \<and> card_textProperty (CardWithManyPropertiesFormatting s) = Prim (PString ''What is your quest?'')
     \<and> gv_helpLinkColor (generalView s) = PNull"
proof -
  have "\<exists>vm s. visualTransform sample_format (sample_host False) (sample_options (Some sample_objects)) = Inr vm
     \<and> settings vm = Some s"
    by (simp add: transform_defs sample_defs)
  then obtain vm s where
    vm: "visualTransform sample_format (sample_host False) (sample_options (Some sample_objects)) = Inr vm"
    and s: "settings vm = Some s"
    by blast
  note t = visualTransform_settings_defaults[OF sample_columns vm s]
  have o1: "override (Some sample_objects) ''generalView'' ''showHelpLink'' = None"
    and o2: "override (Some sample_objects) ''CardWithManyPropertiesFormatting'' ''textProperty'' = None"
    by (simp_all add: override_def sample_objects_def)
  have md: "objects (metadata (sample_view (Some sample_objects))) = Some sample_objects"
    by (simp add: sample_view_def)
  have nhc: "\<not> isHighContrast (colorPalette (sample_host False))"
    by (simp add: sample_host_def sample_palette_def)
  from t o1 md have "gv_showHelpLink (generalView s) = gv_showHelpLink (generalView defaultSettings)"
    by simp
  then have f1: "gv_showHelpLink (generalView s) = Prim (PBool False)"
    by (simp add: defaultSettings_def)
  from t o2 md have "card_textProperty (CardWithManyPropertiesFormatting s)
       = card_textProperty (CardWithManyPropertiesFormatting defaultSettings)"
    by simp
  then have f2: "card_textProperty (CardWithManyPropertiesFormatting s) = Prim (PString ''What is your quest?'')"
    by (simp add: defaultSettings_def)
  from t nhc have f3: "gv_helpLinkColor (generalView s) = PNull"
    by simp
  from vm s o1 o2 f1 f2 f3 show ?thesis by blast
qed

section \<open>Properties of selection highlighting\<close>

lemma isSelectionIdInArray_iff:
  "isSelectionIdInArray includes (Some ids) sel
     \<longleftrightarrow> (\<exists>t. sel = Some t \<and> (\<exists>c \<in> set ids. includes c t))"
  by (cases sel) (auto simp: isSelectionIdInArray_def list_ex_iff)

text \<open>
  C7. With a non-empty selection set, \<open>syncSelectionState\<close> leaves every bar with
  fill-opacity and stroke-opacity 1 (the solid constant) when some selection id of the
  set includes the bar's selection id, by the ids' own containment test, and with
  fill-opacity and stroke-opacity 0.4 (the transparent constant) otherwise. The bars
  keep their number, order and data points.
\<close>

theorem syncSelectionState_selected:
  assumes "ids \<noteq> []"
  shows "solidOpacity Config = 1 \<and> transparentOpacity Config = 0.4
     \<and> (\<exists>bars'. syncSelectionState includes (Some bars) (Some ids) = Some bars'
          \<and> length bars' = length bars
          \<and> (\<forall>i < length bars.
                datum (bars' ! i) = datum (bars ! i)
              \<and> ((\<exists>t. selectionId (datum (bars ! i)) = Some t \<and> (\<exists>c \<in> set ids. includes c t)) \<longrightarrow>
                    inline_style (bars' ! i) ''fill-opacity'' = Some (PNumber 1)
                  \<and> inline_style (bars' ! i) ''stroke-opacity'' = Some (PNumber 1))
              \<and> (\<not> (\<exists>t. selectionId (datum (bars ! i)) = Some t \<and> (\<exists>c \<in> set ids. includes c t)) \<longrightarrow>
                    inline_style (bars' ! i) ''fill-opacity'' = Some (PNumber 0.4)
                  \<and> inline_style (bars' ! i) ''stroke-opacity'' = Some (PNumber 0.4))))"
proof -
  let ?f = "\<lambda>b. let isSelected =
                      isSelectionIdInArray includes (Some ids) (selectionId (datum b));
                    opacity = (if isSelected then solidOpacity Config
                               else transparentOpacity Config)
                in style_all [(''fill-opacity'', PNumber opacity),
                              (''stroke-opacity'', PNumber opacity)] b"
  have cfg: "solidOpacity Config = 1 \<and> transparentOpacity Config = 0.4"
    by (simp add: Config_def)
  from assms have res: "syncSelectionState includes (Some bars) (Some ids) = Some (map ?f bars)"
    by (simp add: syncSelectionState_def)
  have each: "datum (map ?f bars ! i) = datum (bars ! i)
              \<and> ((\<exists>t. selectionId (datum (bars ! i)) = Some t \<and> (\<exists>c \<in> set ids. includes c t)) \<longrightarrow>
                    inline_style (map ?f bars ! i) ''fill-opacity'' = Some (PNumber 1)
                  \<and> inline_style (map ?f bars ! i) ''stroke-opacity'' = Some (PNumber 1))
              \<and> (\<not> (\<exists>t. selectionId (datum (bars ! i)) = Some t \<and> (\<exists>c \<in> set ids. includes c t)) \<longrightarrow>
                    inline_style (map ?f bars ! i) ''fill-opacity'' = Some (PNumber 0.4)
                  \<and> inline_style (map ?f bars ! i) ''stroke-opacity'' = Some (PNumber 0.4))"
    if "i < length bars" for i
    using that
    by (simp add: Let_def style1_def isSelectionIdInArray_iff Config_def)
  from cfg res each show ?thesis by simp
qed

theorem syncSelectionState_selected_witness:
  "[7::nat] \<noteq> []
   \<and> (\<exists>bars'. syncSelectionState (=) (Some [sample_bar 7, sample_bar 8]) (Some [7]) = Some bars'
        \<and> inline_style (bars' ! 0) ''fill-opacity'' = Some (PNumber 1)
        \<and> inline_style (bars' ! 0) ''stroke-opacity'' = Some (PNumber 1)
        \<and> inline_style (bars' ! 1) ''fill-opacity'' = Some (PNumber 0.4)
        \<and> inline_style (bars' ! 1) ''stroke-opacity'' = Some (PNumber 0.4))"
proof -
  have ne: "[7::nat] \<noteq> []" by simp
  note t = syncSelectionState_selected[OF ne, of "(=)" "[sample_bar 7, sample_bar 8]"]
  from t[THEN conjunct2, THEN conjunct2] obtain bars' where
    b: "syncSelectionState (=) (Some [sample_bar 7, sample_bar 8]) (Some [7]) = Some bars'
          \<and> length bars' = length [sample_bar 7, sample_bar 8]
          \<and> (\<forall>i < length [sample_bar 7, sample_bar 8].
                datum (bars' ! i) = datum ([sample_bar 7, sample_bar 8] ! i)
              \<and> ((\<exists>t. selectionId (datum ([sample_bar 7, sample_bar 8] ! i)) = Some t
                      \<and> (\<exists>c \<in> set [7]. c = t)) \<longrightarrow>
                    inline_style (bars' ! i) ''fill-opacity'' = Some (PNumber 1)
                  \<and> inline_style (bars' ! i) ''stroke-opacity'' = Some (PNumber 1))
              \<and> (\<not> (\<exists>t. selectionId (datum ([sample_bar 7, sample_bar 8] ! i)) = Some t
                      \<and> (\<exists>c \<in> set [7]. c = t)) \<longrightarrow>
                    inline_style (bars' ! i) ''fill-opacity'' = Some (PNumber 0.4)
                  \<and> inline_style (bars' ! i) ''stroke-opacity'' = Some (PNumber 0.4)))" ..
  note r = b[THEN conjunct1]
  note a = b[THEN conjunct2, THEN conjunct2]
  from a[THEN spec, of 0]
  have p0: "inline_style (bars' ! 0) ''fill-opacity'' = Some (PNumber 1)
                  \<and> inline_style (bars' ! 0) ''stroke-opacity'' = Some (PNumber 1)"
    by (simp add: sample_bar_def)
  from a[THEN spec, of 1]
  have p1: "inline_style (bars' ! 1) ''fill-opacity'' = Some (PNumber 0.4)
                  \<and> inline_style (bars' ! 1) ''stroke-opacity'' = Some (PNumber 0.4)"
    by (simp add: sample_bar_def)
  from r p0 p1 have all: "syncSelectionState (=) (Some [sample_bar 7, sample_bar 8]) (Some [7]) = Some bars'
        \<and> inline_style (bars' ! 0) ''fill-opacity'' = Some (PNumber 1)
        \<and> inline_style (bars' ! 0) ''stroke-opacity'' = Some (PNumber 1)
        \<and> inline_style (bars' ! 1) ''fill-opacity'' = Some (PNumber 0.4)
        \<and> inline_style (bars' ! 1) ''stroke-opacity'' = Some (PNumber 0.4)"
    by simp
  have "\<exists>bars'. syncSelectionState (=) (Some [sample_bar 7, sample_bar 8]) (Some [7]) = Some bars'
        \<and> inline_style (bars' ! 0) ''fill-opacity'' = Some (PNumber 1)
        \<and> inline_style (bars' ! 0) ''stroke-opacity'' = Some (PNumber 1)
        \<and> inline_style (bars' ! 1) ''fill-opacity'' = Some (PNumber 0.4)
        \<and> inline_style (bars' ! 1) ''stroke-opacity'' = Some (PNumber 0.4)"
    by (rule exI[of _ bars']) (rule all)
  with ne show ?thesis by (rule conjI)
qed

text \<open>
  C8. With an empty selection set, \<open>syncSelectionState\<close> clears the inline fill-opacity
  and stroke-opacity of every bar: neither style remains on any bar, and every other
  inline style and the bound data point stay as they were.
\<close>

theorem syncSelectionState_empty:
  "\<exists>bars'. syncSelectionState includes (Some bars) (Some []) = Some bars'
     \<and> length bars' = length bars
     \<and> (\<forall>i < length bars.
           inline_style (bars' ! i) ''fill-opacity'' = None
         \<and> inline_style (bars' ! i) ''stroke-opacity'' = None
         \<and> datum (bars' ! i) = datum (bars ! i)
         \<and> (\<forall>name. name \<noteq> ''fill-opacity'' \<and> name \<noteq> ''stroke-opacity'' \<longrightarrow>
               inline_style (bars' ! i) name = inline_style (bars ! i) name))"
  by (simp add: syncSelectionState_def style1_def)

theorem syncSelectionState_empty_witness:
  "inline_style (sample_bar 7) ''fill-opacity'' = Some (PNumber 0.5)
   \<and> (\<exists>bars'. syncSelectionState (=) (Some [sample_bar 7, sample_bar 8]) (Some []) = Some bars'
        \<and> inline_style (bars' ! 0) ''fill-opacity'' = None
        \<and> inline_style (bars' ! 0) ''stroke-opacity'' = None
        \<and> inline_style (bars' ! 0) ''fill'' = Some (PString ''#FF0000''))"
proof -
  from syncSelectionState_empty[of "(=)" "[sample_bar 7, sample_bar 8]"]
  obtain bars' where
    b: "syncSelectionState (=) (Some [sample_bar 7, sample_bar 8]) (Some []) = Some bars'
     \<and> length bars' = length [sample_bar 7, sample_bar 8]
     \<and> (\<forall>i < length [sample_bar 7, sample_bar 8].
           inline_style (bars' ! i) ''fill-opacity'' = None
         \<and> inline_style (bars' ! i) ''stroke-opacity'' = None
         \<and> datum (bars' ! i) = datum ([sample_bar 7, sample_bar 8] ! i)
         \<and> (\<forall>name. name \<noteq> ''fill-opacity'' \<and> name \<noteq> ''stroke-opacity'' \<longrightarrow>
               inline_style (bars' ! i) name = inline_style ([sample_bar 7, sample_bar 8] ! i) name))" ..
  note r = b[THEN conjunct1]
  note a = b[THEN conjunct2, THEN conjunct2, THEN spec, of 0]
  from a have c: "inline_style (bars' ! 0) ''fill-opacity'' = None
        \<and> inline_style (bars' ! 0) ''stroke-opacity'' = None"
    by simp
  from a have "\<forall>name. name \<noteq> ''fill-opacity'' \<and> name \<noteq> ''stroke-opacity'' \<longrightarrow>
               inline_style (bars' ! 0) name = inline_style (sample_bar 7) name"
    by simp
  from this[THEN spec, of "''fill''"]
  have f: "inline_style (bars' ! 0) ''fill'' = Some (PString ''#FF0000'')"
    by (simp add: sample_bar_def)
  from r c f have all: "syncSelectionState (=) (Some [sample_bar 7, sample_bar 8]) (Some []) = Some bars'
        \<and> inline_style (bars' ! 0) ''fill-opacity'' = None
        \<and> inline_style (bars' ! 0) ''stroke-opacity'' = None
        \<and> inline_style (bars' ! 0) ''fill'' = Some (PString ''#FF0000'')"
    by simp
  have ex: "\<exists>bars'. syncSelectionState (=) (Some [sample_bar 7, sample_bar 8]) (Some []) = Some bars'
        \<and> inline_style (bars' ! 0) ''fill-opacity'' = None
        \<and> inline_style (bars' ! 0) ''stroke-opacity'' = None
        \<and> inline_style (bars' ! 0) ''fill'' = Some (PString ''#FF0000'')"
    by (rule exI[of _ bars']) (rule all)
  have "inline_style (sample_bar 7) ''fill-opacity'' = Some (PNumber 0.5)"
    by (simp add: sample_bar_def)
  from this ex show ?thesis by (rule conjI)
qed

text \<open>
  C10. Called with no bar selection (\<open>null\<close> or \<open>undefined\<close>), or with a selection
  and no selection-id array, \<open>syncSelectionState\<close> returns at once: the selection,
  with every bar's inline styles, is as it was.
\<close>

theorem syncSelectionState_null:
  "syncSelectionState includes None selectionIds = None
   \<and> syncSelectionState includes (Some bars) None = Some bars"
  by (simp add: syncSelectionState_def)

section \<open>Only the first columns are read\<close>

text \<open>
  C9. \<open>visualTransform\<close> reads only the first data view and, in it, the first category
  column and the first value column: dropping every other data view, category column
  and value column from the update changes nothing in what it returns.
\<close>

theorem visualTransform_first_columns:
  "visualTransform fmt host (first_columns_only options) = visualTransform fmt host options"
proof (cases "dataViews options")
  case None
  then show ?thesis by (simp add: visualTransform_def first_columns_only_def Let_def)
next
  case (Some views)
  show ?thesis
  proof (cases views)
    case Nil
    with Some show ?thesis by (simp add: visualTransform_def first_columns_only_def Let_def)
  next
    case (Cons dv dvs)
    note views = Some Cons
    show ?thesis
    proof (cases "categorical dv")
      case None
      with views show ?thesis by (simp add: visualTransform_def first_columns_only_def Let_def)
    next
      case (Some cl)
      note cl = this
      show ?thesis
      proof (cases "categories cl")
        case None
        with views cl show ?thesis by (simp add: visualTransform_def first_columns_only_def Let_def)
      next
        case (Some cs)
        note cs = this
        show ?thesis
        proof (cases cs)
          case Nil
          with views cl cs show ?thesis by (simp add: visualTransform_def first_columns_only_def Let_def)
        next
          case (Cons cat cats)
          note cat = this
          show ?thesis
          proof (cases "source cat")
            case None
            with views cl cs cat show ?thesis
              by (simp add: visualTransform_def first_columns_only_def Let_def)
          next
            case (Some src)
            note src = this
            show ?thesis
            proof (cases "categorical_values cl")
              case None
              with views cl cs cat src show ?thesis
                by (simp add: visualTransform_def first_columns_only_def Let_def)
            next
              case (Some vs)
              note vs = this
              show ?thesis
              proof (cases vs)
                case Nil
                with views cl cs cat src vs show ?thesis
                  by (simp add: visualTransform_def first_columns_only_def Let_def)
              next
                case (Cons dataValue vals)
                with views cl cs cat src vs show ?thesis
                  by (simp add: visualTransform_def first_columns_only_def Let_def
                        split: sum.splits)
              qed
            qed
          qed
        qed
      qed
    qed
  qed
qed

end
